theory Spec2Isabelle
  imports Main "HOL-Library.Sublist"
begin

section \<open>Python values, remote requests and the session\<close>

text \<open>
  The module \<^verbatim>\<open>cvpy/biomedimage/BiomedImage.py\<close> computes nothing locally: every method
  builds keyword dictionaries and SQL text and invokes actions on a CAS session. The
  embedding therefore keeps the argument values as the source writes them (a small
  universe of Python values), records each action invocation as a request, and lets the
  session decide, for each request, whether the invocation returns or raises.
\<close>

text \<open>A \<^verbatim>\<open>swat.CASTable\<close> handle; the source only ever reads its \<^verbatim>\<open>name\<close>.\<close>

record CASTable =
  name :: string

text \<open>
  Python values that occur as action arguments. A finite float is kept as mantissa and
  binary exponent; the source forwards such values and never computes with them.
\<close>

datatype pyval =
    PyNone
  | PyBool bool
  | PyInt int
  | PyFloat int int
  | PyStr string
  | PyList "pyval list"
  | PyDict "(string \<times> pyval) list"
  | PyTable CASTable

text \<open>
  One action invocation on the session: the dotted action name as written after
  \<^verbatim>\<open>conn.\<close>, the positional arguments, and the keyword arguments in source order.
\<close>

datatype request = Action string "pyval list" "(string \<times> pyval) list"

text \<open>
  \<open>AttributeError\<close> is what Python raises for an attribute lookup on \<^verbatim>\<open>None\<close>;
  \<open>Raised\<close> stands for whatever exception the session layer raises.
\<close>

datatype error = AttributeError | Raised string

text \<open>
  The observable effects of a method, in program order: requests sent to the session and
  attribute assignments on the caller's mask object.
\<close>

datatype event = Request request | Setattr string pyval

fun requests_of :: "event list \<Rightarrow> request list" where
  "requests_of [] = []"
| "requests_of (Request r # es) = r # requests_of es"
| "requests_of (Setattr a v # es) = requests_of es"

text \<open>
  The session is opaque. Its behaviour is a parameter: given the requests it has already
  received and a new request, it either returns (\<open>None\<close>) or raises (\<open>Some e\<close>). Return
  values of actions are never inspected by the source, so they are not modelled.
\<close>

type_synonym CAS = "request list \<Rightarrow> request \<Rightarrow> error option"

text \<open>
  The world a method runs in: the events so far, and the one object a method may mutate
  (for \<^verbatim>\<open>mask_image\<close> the caller's mask \<^verbatim>\<open>ImageTable\<close>).
\<close>

record 'h world =
  events :: "event list"
  heap :: 'h

type_synonym ('h, 'a) prog = "'h world \<Rightarrow> 'h world \<times> (error + 'a)"

definition return :: "'a \<Rightarrow> ('h, 'a) prog" where
  "return x w = (w, Inr x)"

definition raise :: "error \<Rightarrow> ('h, 'a) prog" where
  "raise e w = (w, Inl e)"

text \<open>Sequencing: an exception of the first statement skips the rest; effects stay.\<close>

definition and_then :: "('h, 'a) prog \<Rightarrow> ('a \<Rightarrow> ('h, 'b) prog) \<Rightarrow> ('h, 'b) prog" where
  "and_then m k w = (case m w of (w', Inl e) \<Rightarrow> (w', Inl e) | (w', Inr x) \<Rightarrow> k x w')"

text \<open>Sending a request: it is logged whether or not the session then raises.\<close>

definition invoke :: "CAS \<Rightarrow> request \<Rightarrow> ('h, unit) prog" where
  "invoke conn r w =
     (let w' = w\<lparr>events := events w @ [Request r]\<rparr>
      in case conn (requests_of (events w)) r of
           None \<Rightarrow> (w', Inr ())
         | Some e \<Rightarrow> (w', Inl e))"

text \<open>
  \<^verbatim>\<open>conn.<action>(*args, **kwargs)\<close> where \<^verbatim>\<open>conn\<close> may be \<^verbatim>\<open>None\<close>: the attribute
  lookup on \<^verbatim>\<open>None\<close> raises before any argument is evaluated or any request is sent.
\<close>

definition call :: "CAS option \<Rightarrow> string \<Rightarrow> pyval list \<Rightarrow> (string \<times> pyval) list \<Rightarrow> ('h, unit) prog" where
  "call conn a args kwargs =
     (case conn of
        None \<Rightarrow> raise AttributeError
      | Some c \<Rightarrow> invoke c (Action a args kwargs))"

section \<open>The wrapper and its constructor\<close>

record BiomedImage =
  cas_session :: "CAS option"

text \<open>
  \<^verbatim>\<open>BiomedImage.__init__(self, cas_session=None)\<close>: stores the session, then loads the
  three action sets. The instance is handed to the caller only if all three calls return.
\<close>

definition BiomedImage_init :: "CAS option \<Rightarrow> ('h, BiomedImage) prog" where
  "BiomedImage_init session =
     (let self = \<lparr>cas_session = session\<rparr> in
      and_then (call (cas_session self) ''loadactionset'' [PyStr ''image''] []) (\<lambda>_.
      and_then (call (cas_session self) ''loadactionset'' [PyStr ''biomedimage''] []) (\<lambda>_.
      and_then (call (cas_session self) ''loadactionset'' [PyStr ''fedsql''] []) (\<lambda>_.
      return self))))"

section \<open>External collaborators\<close>

text \<open>
  Modelled from the spec: the class \<^verbatim>\<open>cvpy.base.ImageTable.ImageTable\<close> is imported by the
  source but not part of it. The spec describes it as a named remote table plus
  column-name metadata: which column holds the image bytes, the dimension vector, the
  resolution and the format, and an identifier column. The attributes \<^verbatim>\<open>image\<close> and
  \<^verbatim>\<open>id\<close> carry a suffix here because HOL already has constants of those names (as it
  has for \<open>mask\<close>, so the mask argument is called \<open>mask_tbl\<close> below).
\<close>

record ImageTable =
  table :: CASTable
  image_attr :: string
  dimension :: string
  resolution :: string
  imageFormat :: string
  id_attr :: string

text \<open>
  Modelled from the spec: the enumeration \<^verbatim>\<open>cvpy.biomedimage.LabelConnectivity\<close>, with its
  two members; \<open>enum_name\<close> is the \<^verbatim>\<open>.name\<close> of a Python enum member.
\<close>

datatype LabelConnectivity = FACE | VERTEX

fun enum_name :: "LabelConnectivity \<Rightarrow> string" where
  "enum_name FACE = ''FACE''"
| "enum_name VERTEX = ''VERTEX''"

section \<open>Sphericity quantification\<close>

text \<open>The f-string passed to \<^verbatim>\<open>fedsql.execdirect\<close>, with the layout of the source.\<close>

definition sphericity_sql :: "CASTable \<Rightarrow> string" where
  "sphericity_sql sphericity =
     ''\<newline>            create table '' @ name sphericity @ '' as \<newline>'' @
     ''            select _path_,_perimeter_,_content_, (power(pi(), 1.0/3.0) * power(6*_content_, 2.0/3.0))/_perimeter_ as \<newline>'' @
     ''            sphericity from quantify\<newline>'' @
     ''            ''"

text \<open>
  \<^verbatim>\<open>quantify_sphericity(self, image_table, use_spacing, input_background,
  label_connectivity, sphericity)\<close>: three action calls in sequence, none guarded.
\<close>

definition quantify_sphericity ::
  "BiomedImage \<Rightarrow> ImageTable \<Rightarrow> bool \<Rightarrow> pyval \<Rightarrow> LabelConnectivity \<Rightarrow> CASTable \<Rightarrow> ('h, unit) prog"
where
  "quantify_sphericity self image_table use_spacing input_background label_connectivity sphericity =
     (let conn = cas_session self in
      and_then
        (call conn ''biomedimage.quantifybiomedimages'' []
           [(''images'', PyDict [(''table'', PyTable (table image_table))]),
            (''copyvars'', PyList [PyStr ''_path_'']),
            (''region'', PyStr ''COMPONENT''),
            (''quantities'',
               PyList [PyDict [(''quantityparameters'',
                                  PyDict [(''quantitytype'', PyStr ''perimeter'')])],
                       PyDict [(''quantityparameters'',
                                  PyDict [(''quantitytype'', PyStr ''content''),
                                          (''useSpacing'', PyBool use_spacing)])]]),
            (''labelparameters'',
               PyDict [(''labelType'', PyStr ''basic''),
                       (''connectivity'', PyStr (enum_name label_connectivity))]),
            (''inputbackground'', input_background),
            (''casout'', PyDict [(''name'', PyStr ''quantify'')])])
        (\<lambda>_.
      and_then (call conn ''fedsql.execdirect'' [PyStr (sphericity_sql sphericity)] []) (\<lambda>_.
      call conn ''table.dropTable'' [] [(''name'', PyStr ''quantify'')])))"

section \<open>Image masking\<close>

text \<open>Attribute assignments on the mask object (the heap of \<^verbatim>\<open>mask_image\<close>).\<close>

definition set_image :: "string \<Rightarrow> (ImageTable, unit) prog" where
  "set_image v w =
     (w\<lparr>events := events w @ [Setattr ''image'' (PyStr v)],
        heap := (heap w)\<lparr>image_attr := v\<rparr>\<rparr>, Inr ())"

definition set_dimension :: "string \<Rightarrow> (ImageTable, unit) prog" where
  "set_dimension v w =
     (w\<lparr>events := events w @ [Setattr ''dimension'' (PyStr v)],
        heap := (heap w)\<lparr>dimension := v\<rparr>\<rparr>, Inr ())"

definition set_resolution :: "string \<Rightarrow> (ImageTable, unit) prog" where
  "set_resolution v w =
     (w\<lparr>events := events w @ [Setattr ''resolution'' (PyStr v)],
        heap := (heap w)\<lparr>resolution := v\<rparr>\<rparr>, Inr ())"

definition set_imageFormat :: "string \<Rightarrow> (ImageTable, unit) prog" where
  "set_imageFormat v w =
     (w\<lparr>events := events w @ [Setattr ''imageFormat'' (PyStr v)],
        heap := (heap w)\<lparr>imageFormat := v\<rparr>\<rparr>, Inr ())"

text \<open>The two local closures named \<^verbatim>\<open>rename_columns\<close>, one per branch.\<close>

definition rename_columns_decoded :: "(ImageTable, unit) prog" where
  "rename_columns_decoded =
     and_then (set_image ''seg'') (\<lambda>_.
     and_then (set_dimension ''dim'') (\<lambda>_.
     and_then (set_resolution ''res'') (\<lambda>_.
     set_imageFormat ''form'')))"

definition rename_columns_encoded :: "(ImageTable, unit) prog" where
  "rename_columns_encoded = set_image ''seg''"

text \<open>The two join statements, with the layout of the source.\<close>

definition fed_sql_str_decoded :: "ImageTable \<Rightarrow> ImageTable \<Rightarrow> string" where
  "fed_sql_str_decoded mask_tbl image_tbl =
     ''create table _images_to_mask_ as \<newline>'' @
     ''                select a.seg, a.dim, a.res, a.form, b.* \<newline>'' @
     ''                from '' @ name (table mask_tbl) @ '' as a inner join '' @
        name (table image_tbl) @ '' as b \<newline>'' @
     ''                on a._id_=b._id_''"

definition fed_sql_str_encoded :: "ImageTable \<Rightarrow> ImageTable \<Rightarrow> string" where
  "fed_sql_str_encoded mask_tbl image_tbl =
     ''create table _images_to_mask_ as \<newline>'' @
     ''                select a.seg, b.* \<newline>'' @
     ''                from '' @ name (table mask_tbl) @ '' as a inner join '' @
        name (table image_tbl) @ '' as b \<newline>'' @
     ''                on a._id_=b._id_''"

text \<open>
  \<^verbatim>\<open>mask_image(self, image, mask, casout, input_background, decode, output_background,
  add_columns, copy_vars)\<close>. The mask object is the heap of the world; it is read on entry
  (the branch builds its dictionaries and SQL text before any call) and written by
  \<^verbatim>\<open>rename_columns\<close> at the very end. The method \<^verbatim>\<open>mask.has_decoded_images()\<close> belongs to
  the absent \<^verbatim>\<open>ImageTable\<close> class and is taken as a parameter.
  \<^verbatim>\<open>conn.CASTable("_images_to_mask_")\<close> builds a client-side handle and sends nothing.
\<close>

definition mask_image ::
  "(ImageTable \<Rightarrow> bool) \<Rightarrow> BiomedImage \<Rightarrow> ImageTable \<Rightarrow> CASTable \<Rightarrow> int \<Rightarrow> bool \<Rightarrow> int \<Rightarrow>
     pyval \<Rightarrow> pyval \<Rightarrow> (ImageTable, unit) prog"
where
  "mask_image has_decoded_images self image_tbl casout input_background decode
       output_background add_columns copy_vars w =
     (let conn = cas_session self;
          mask_tbl = heap w;
          (alter_columns, fed_sql_str, binary_operation_dict, rename_columns) =
            (if has_decoded_images mask_tbl then
               ([PyDict [(''name'', PyStr (image_attr mask_tbl)), (''rename'', PyStr ''seg'')],
                 PyDict [(''name'', PyStr (dimension mask_tbl)), (''rename'', PyStr ''dim'')],
                 PyDict [(''name'', PyStr (resolution mask_tbl)), (''rename'', PyStr ''res'')],
                 PyDict [(''name'', PyStr (imageFormat mask_tbl)), (''rename'', PyStr ''form'')]],
                fed_sql_str_decoded mask_tbl image_tbl,
                [(''binaryoperationtype'', PyStr ''mask_specific''),
                 (''image'', PyStr ''seg''),
                 (''dimension'', PyStr ''dim''),
                 (''resolution'', PyStr ''res''),
                 (''imageformat'', PyStr ''form''),
                 (''outputBackground'', PyInt output_background),
                 (''inputBackground'', PyInt input_background)],
                rename_columns_decoded)
             else
               ([PyDict [(''name'', PyStr (image_attr mask_tbl)), (''rename'', PyStr ''seg'')]],
                fed_sql_str_encoded mask_tbl image_tbl,
                [(''binaryoperationtype'', PyStr ''mask_specific''),
                 (''image'', PyStr ''seg''),
                 (''outputBackground'', PyInt output_background),
                 (''inputBackground'', PyInt input_background)],
                rename_columns_encoded))
      in and_then
           (call conn ''table.altertable'' []
              [(''name'', PyTable (table mask_tbl)), (''columns'', PyList alter_columns)])
           (\<lambda>_.
         let images_to_mask = \<lparr>name = ''_images_to_mask_''\<rparr> in
         and_then (call conn ''fedsql.execdirect'' [PyStr fed_sql_str] []) (\<lambda>_.
         and_then
           (call conn ''biomedimage.processbiomedimages'' []
              [(''images'', PyDict [(''table'', PyTable images_to_mask)]),
               (''steps'',
                  PyList [PyDict [(''stepparameters'',
                                     PyDict [(''steptype'', PyStr ''binary_operation''),
                                             (''binaryoperation'',
                                                PyDict binary_operation_dict)])]]),
               (''decode'', PyBool decode),
               (''addcolumns'', add_columns),
               (''casout'', PyTable casout),
               (''copyvars'', copy_vars)])
           (\<lambda>_.
         and_then (call conn ''table.dropTable'' [PyTable images_to_mask] []) (\<lambda>_.
         rename_columns)))) w)"

section \<open>Vocabulary for stating properties\<close>

text \<open>The events a run added to the world it started from.\<close>

definition issued :: "'h world \<Rightarrow> 'h world \<Rightarrow> event list" where
  "issued w w' = drop (length (events w)) (events w')"

fun action_name :: "request \<Rightarrow> string" where
  "action_name (Action a args kwargs) = a"

fun positional :: "request \<Rightarrow> pyval list" where
  "positional (Action a args kwargs) = args"

fun keyword :: "request \<Rightarrow> string \<Rightarrow> pyval option" where
  "keyword (Action a args kwargs) k = map_of kwargs k"

fun is_setattr :: "event \<Rightarrow> bool" where
  "is_setattr (Setattr a v) = True"
| "is_setattr (Request r) = False"

text \<open>
  A drop request names table \<open>t\<close> when it is a \<^verbatim>\<open>table.dropTable\<close> invocation whose
  \<^verbatim>\<open>name\<close> keyword is \<open>t\<close>, or whose single positional argument is a table handle named
  \<open>t\<close>; the source uses both forms.
\<close>

definition drops_table :: "request \<Rightarrow> string \<Rightarrow> bool" where
  "drops_table r t =
     (action_name r = ''table.dropTable'' \<and>
      (keyword r ''name'' = Some (PyStr t) \<or>
       (case positional r of [PyTable tb] \<Rightarrow> name tb = t | _ \<Rightarrow> False)))"

text \<open>A session on which every action returns.\<close>

definition accepting :: CAS where
  "accepting h r = None"

text \<open>A session on which the \<open>n\<close>-th request it receives (counting from 0) raises.\<close>

definition failing_at :: "nat \<Rightarrow> CAS" where
  "failing_at n h r = (if length h = n then Some (Raised ''remote failure'') else None)"

text \<open>
  SQL text is compared up to layout: \<open>sql_tokens\<close> splits a statement at white space and
  makes each of the characters \<^verbatim>\<open>( ) , * / =\<close> a token of its own.
\<close>

definition is_space :: "char \<Rightarrow> bool" where
  "is_space c = (c = CHR '' '' \<or> c = CHR ''\<newline>'' \<or> c = CHR 0x09 \<or> c = CHR 0x0D)"

definition is_punct :: "char \<Rightarrow> bool" where
  "is_punct c = (c \<in> set ''(),*/='')"

definition flush :: "string \<Rightarrow> string list" where
  "flush cur = (if cur = [] then [] else [cur])"

fun sql_lex :: "string \<Rightarrow> string \<Rightarrow> string list" where
  "sql_lex cur [] = flush cur"
| "sql_lex cur (c # cs) =
     (if is_space c then flush cur @ sql_lex [] cs
      else if is_punct c then flush cur @ [[c]] @ sql_lex [] cs
      else sql_lex (cur @ [c]) cs)"

definition sql_tokens :: "string \<Rightarrow> string list" where
  "sql_tokens s = sql_lex [] s"

text \<open>
  The spec's reading of a method body (sections 5 and 7): the requests go out one after
  the other, and the first one on which the session raises ends the method with that
  error. \<open>send_all c h rs\<close> gives the requests actually sent and the error, if any, when
  the session \<open>c\<close> has already received \<open>h\<close>. The methods are compared with it below.
\<close>

fun send_all :: "CAS \<Rightarrow> request list \<Rightarrow> request list \<Rightarrow> request list \<times> error option" where
  "send_all c h [] = ([], None)"
| "send_all c h (r # rs) =
     (case c h r of
        Some e \<Rightarrow> ([r], Some e)
      | None \<Rightarrow> (case send_all c (h @ [r]) rs of (sent, res) \<Rightarrow> (r # sent, res)))"

text \<open>Concrete arguments on which the theorems below are exercised.\<close>

definition example_images :: ImageTable where
  "example_images =
     \<lparr>table = \<lparr>name = ''images''\<rparr>, image_attr = ''_image_'', dimension = ''_dimension_'',
      resolution = ''_resolution_'', imageFormat = ''_imageFormat_'', id_attr = ''_id_''\<rparr>"

definition example_masks :: ImageTable where
  "example_masks =
     \<lparr>table = \<lparr>name = ''masks''\<rparr>, image_attr = ''_image_'', dimension = ''_dimension_'',
      resolution = ''_resolution_'', imageFormat = ''_imageFormat_'', id_attr = ''_id_''\<rparr>"

definition example_wrapper :: "CAS \<Rightarrow> BiomedImage" where
  "example_wrapper c = \<lparr>cas_session = Some c\<rparr>"

definition fresh :: "'h \<Rightarrow> 'h world" where
  "fresh x = \<lparr>events = [], heap = x\<rparr>"

definition always_decoded :: "ImageTable \<Rightarrow> bool" where
  "always_decoded m = True"

definition never_decoded :: "ImageTable \<Rightarrow> bool" where
  "never_decoded m = False"

definition mask_example :: "(ImageTable \<Rightarrow> bool) \<Rightarrow> CAS \<Rightarrow> ImageTable world \<times> (error + unit)" where
  "mask_example hdi c =
     mask_image hdi (example_wrapper c) example_images \<lparr>name = ''masked''\<rparr> 0 False 0
       PyNone PyNone (fresh example_masks)"

definition quantify_example :: "CAS \<Rightarrow> unit world \<times> (error + unit)" where
  "quantify_example c =
     quantify_sphericity (example_wrapper c) example_images True (PyInt 0) FACE
       \<lparr>name = ''sphere''\<rparr> (fresh ())"

section \<open>Auxiliary facts\<close>

lemma requests_of_append: "requests_of (xs @ ys) = requests_of xs @ requests_of ys"
  by (induction xs rule: requests_of.induct) simp_all

lemma requests_of_map_Request: "requests_of (map Request rs) = rs"
  by (induction rs) simp_all

lemma send_all_prefix: "send_all c h rs = (sent, res) \<Longrightarrow> prefix sent rs"
  by (induction rs arbitrary: h sent res) (auto split: option.splits prod.splits)

lemma send_all_nonempty: "send_all c h (r # rs) = (sent, res) \<Longrightarrow> \<exists>sent'. sent = r # sent'"
  by (auto split: option.splits prod.splits)

lemma send_all_returns: "send_all c h rs = (sent, None) \<Longrightarrow> sent = rs"
  by (induction rs arbitrary: h sent) (auto split: option.splits prod.splits)

lemma send_all_raise_last:
  "send_all c h rs = (xs @ r # ys, res) \<Longrightarrow> c (h @ xs) r = Some e \<Longrightarrow> ys = [] \<and> res = Some e"
proof (induction rs arbitrary: h xs)
  case Nil
  then show ?case by simp
next
  case (Cons a rs)
  show ?case
  proof (cases "c h a")
    case (Some e')
    with Cons.prems show ?thesis
      by (auto simp: Cons_eq_append_conv)
  next
    case None
    obtain sent res' where sa: "send_all c (h @ [a]) rs = (sent, res')"
      by (cases "send_all c (h @ [a]) rs")
    with None Cons.prems have eq: "a # sent = xs @ r # ys" and res: "res' = res"
      by simp_all
    show ?thesis
    proof (cases xs)
      case Nil
      with eq None Cons.prems show ?thesis by simp
    next
      case (Cons x xs')
      with eq have "sent = xs' @ r # ys" and "x = a" by simp_all
      with Cons.IH[of "h @ [a]" xs'] sa res Cons.prems(2) Cons show ?thesis by simp
    qed
  qed
qed

lemma send_all_completed_returned:
  "send_all c h rs = (xs @ r # ys, None) \<Longrightarrow> c (h @ xs) r = None"
  using send_all_raise_last[of c h rs xs r ys None]
  by (cases "c (h @ xs) r") auto

lemma three_calls_send_all:
  "and_then (call (Some c) a1 p1 k1) (\<lambda>_.
   and_then (call (Some c) a2 p2 k2) (\<lambda>_.
   call (Some c) a3 p3 k3)) w =
   (case send_all c (requests_of (events w)) [Action a1 p1 k1, Action a2 p2 k2, Action a3 p3 k3] of
      (sent, Some e) \<Rightarrow> (w\<lparr>events := events w @ map Request sent\<rparr>, Inl e)
    | (sent, None) \<Rightarrow> (w\<lparr>events := events w @ map Request sent\<rparr>, Inr ()))"
  by (simp add: and_then_def call_def invoke_def Let_def requests_of_append split: option.splits)

lemma four_calls_send_all:
  "and_then (call (Some c) a1 p1 k1) (\<lambda>_.
   and_then (call (Some c) a2 p2 k2) (\<lambda>_.
   and_then (call (Some c) a3 p3 k3) (\<lambda>_.
   and_then (call (Some c) a4 p4 k4) (\<lambda>_. k)))) w =
   (case send_all c (requests_of (events w))
           [Action a1 p1 k1, Action a2 p2 k2, Action a3 p3 k3, Action a4 p4 k4] of
      (sent, Some e) \<Rightarrow> (w\<lparr>events := events w @ map Request sent\<rparr>, Inl e)
    | (sent, None) \<Rightarrow> k (w\<lparr>events := events w @ map Request sent\<rparr>))"
  by (simp add: and_then_def call_def invoke_def Let_def requests_of_append split: option.splits)


lemma issued_append: "events w' = events w @ evs \<Longrightarrow> issued w w' = evs"
  by (simp add: issued_def)

lemma sql_lex_space: "is_space sp \<Longrightarrow> sql_lex cur (a @ sp # b) = sql_lex cur a @ sql_lex [] b"
  by (induction a arbitrary: cur) simp_all

lemma sql_lex_splice: "sql_lex [] (n @ CHR '' '' # b) = sql_lex [] n @ sql_lex [] b"
  by (rule sql_lex_space) (simp add: is_space_def)

lemma sphericity_sql_tokens:
  "sql_tokens (sphericity_sql sphericity) =
     [''create'', ''table''] @ sql_tokens (name sphericity) @
     [''as'', ''select'', ''_path_'', '','', ''_perimeter_'', '','', ''_content_'', '','',
      ''('', ''power'', ''('', ''pi'', ''('', '')'', '','', ''1.0'', ''/'', ''3.0'', '')'',
      ''*'',
      ''power'', ''('', ''6'', ''*'', ''_content_'', '','', ''2.0'', ''/'', ''3.0'', '')'',
      '')'', ''/'', ''_perimeter_'',
      ''as'', ''sphericity'', ''from'', ''quantify'']"
  unfolding sql_tokens_def sphericity_sql_def
  by (simp add: sql_lex_splice is_space_def is_punct_def flush_def)

lemma sphericity_sql_mentions_name: "sublist (name sphericity) (sphericity_sql sphericity)"
  unfolding sphericity_sql_def by (rule sublist_appendI)

lemma quantify_sphericity_None:
  "cas_session self = None \<Longrightarrow>
   quantify_sphericity self image_table use_spacing input_background label_connectivity sphericity w
     = (w, Inl AttributeError)"
  by (simp add: quantify_sphericity_def Let_def and_then_def call_def raise_def)

lemma quantify_sphericity_sends:
  assumes "cas_session self = Some c"
  shows "\<exists>r1. quantify_sphericity self image_table use_spacing input_background
                 label_connectivity sphericity w =
               (case send_all c (requests_of (events w))
                       [r1,
                        Action ''fedsql.execdirect'' [PyStr (sphericity_sql sphericity)] [],
                        Action ''table.dropTable'' [] [(''name'', PyStr ''quantify'')]] of
                  (sent, Some e) \<Rightarrow> (w\<lparr>events := events w @ map Request sent\<rparr>, Inl e)
                | (sent, None) \<Rightarrow> (w\<lparr>events := events w @ map Request sent\<rparr>, Inr ())) \<and>
             action_name r1 = ''biomedimage.quantifybiomedimages'' \<and>
             keyword r1 ''casout'' = Some (PyDict [(''name'', PyStr ''quantify'')])"
  unfolding quantify_sphericity_def Let_def assms three_calls_send_all
  apply (intro exI conjI)
    apply (rule refl)
   apply simp
  apply simp
  done

lemma quantify_sphericity_run:
  assumes "cas_session self = Some c"
      and "quantify_sphericity self image_table use_spacing input_background
             label_connectivity sphericity w = (w', res)"
  obtains r1 sent err where
    "action_name r1 = ''biomedimage.quantifybiomedimages''"
    "keyword r1 ''casout'' = Some (PyDict [(''name'', PyStr ''quantify'')])"
    "send_all c (requests_of (events w))
       [r1,
        Action ''fedsql.execdirect'' [PyStr (sphericity_sql sphericity)] [],
        Action ''table.dropTable'' [] [(''name'', PyStr ''quantify'')]] = (sent, err)"
    "events w' = events w @ map Request sent"
    "heap w' = heap w"
    "res = (case err of None \<Rightarrow> Inr () | Some e \<Rightarrow> Inl e)"
proof -
  from quantify_sphericity_sends[OF assms(1), of image_table use_spacing input_background
      label_connectivity sphericity w]
  obtain r1 where
    run: "quantify_sphericity self image_table use_spacing input_background
            label_connectivity sphericity w =
          (case send_all c (requests_of (events w))
                  [r1,
                   Action ''fedsql.execdirect'' [PyStr (sphericity_sql sphericity)] [],
                   Action ''table.dropTable'' [] [(''name'', PyStr ''quantify'')]] of
             (sent, Some e) \<Rightarrow> (w\<lparr>events := events w @ map Request sent\<rparr>, Inl e)
           | (sent, None) \<Rightarrow> (w\<lparr>events := events w @ map Request sent\<rparr>, Inr ()))"
    and r1: "action_name r1 = ''biomedimage.quantifybiomedimages''"
        "keyword r1 ''casout'' = Some (PyDict [(''name'', PyStr ''quantify'')])"
    by blast
  obtain sent err where sa: "send_all c (requests_of (events w))
       [r1,
        Action ''fedsql.execdirect'' [PyStr (sphericity_sql sphericity)] [],
        Action ''table.dropTable'' [] [(''name'', PyStr ''quantify'')]] = (sent, err)"
    by (cases "send_all c (requests_of (events w))
       [r1,
        Action ''fedsql.execdirect'' [PyStr (sphericity_sql sphericity)] [],
        Action ''table.dropTable'' [] [(''name'', PyStr ''quantify'')]]")
  from run sa assms(2) have "events w' = events w @ map Request sent" "heap w' = heap w"
      "res = (case err of None \<Rightarrow> Inr () | Some e \<Rightarrow> Inl e)"
    by (auto split: option.splits)
  with r1 sa show thesis
    using that by blast
qed



section \<open>The constructor\<close>

text \<open>
  C7. Constructing the wrapper with a session handle sends the three \<^verbatim>\<open>loadactionset\<close>
  requests \<^verbatim>\<open>image\<close>, \<^verbatim>\<open>biomedimage\<close>, \<^verbatim>\<open>fedsql\<close>, in this order and nothing else. The
  requests sent always form a non-empty initial segment of these three; the constructor
  hands out an instance only when all three have been sent and have returned, so every
  other request of the wrapper comes after them.
\<close>

theorem init_loads_three_action_sets:
  assumes "BiomedImage_init (Some conn) w = (w', res)"
  shows "issued w w' \<noteq> [] \<and>
         prefix (issued w w')
           [Request (Action ''loadactionset'' [PyStr ''image''] []),
            Request (Action ''loadactionset'' [PyStr ''biomedimage''] []),
            Request (Action ''loadactionset'' [PyStr ''fedsql''] [])] \<and>
         heap w' = heap w \<and>
         (\<forall>self. res = Inr self \<longrightarrow>
            cas_session self = Some conn \<and>
            issued w w' =
              [Request (Action ''loadactionset'' [PyStr ''image''] []),
               Request (Action ''loadactionset'' [PyStr ''biomedimage''] []),
               Request (Action ''loadactionset'' [PyStr ''fedsql''] [])])"
  using assms unfolding BiomedImage_init_def
  by (auto simp: Let_def and_then_def call_def invoke_def return_def issued_def
        split: option.splits)


theorem init_loads_three_action_sets_witness:
  "snd (BiomedImage_init (Some accepting) (fresh ())) = Inr \<lparr>cas_session = Some accepting\<rparr> \<and>
   issued (fresh ()) (fst (BiomedImage_init (Some accepting) (fresh ()))) =
     [Request (Action ''loadactionset'' [PyStr ''image''] []),
      Request (Action ''loadactionset'' [PyStr ''biomedimage''] []),
      Request (Action ''loadactionset'' [PyStr ''fedsql''] [])]"
proof -
  have res: "snd (BiomedImage_init (Some accepting) (fresh ())) = Inr \<lparr>cas_session = Some accepting\<rparr>"
    by (simp add: BiomedImage_init_def Let_def and_then_def call_def invoke_def return_def
          accepting_def fresh_def)
  then have run: "BiomedImage_init (Some accepting) (fresh ()) =
      (fst (BiomedImage_init (Some accepting) (fresh ())), Inr \<lparr>cas_session = Some accepting\<rparr>)"
    by (metis prod.collapse)
  from init_loads_three_action_sets[OF run] res show ?thesis
    by blast
qed


text \<open>
  C10. Constructing the wrapper without a session raises (an attribute lookup on
  \<^verbatim>\<open>None\<close>) before anything is sent; whenever the constructor does hand out an instance,
  the session it was given, and which the instance stores, is a real session.
\<close>

theorem init_without_session_raises:
  "BiomedImage_init None w = (w, Inl AttributeError) \<and>
   (BiomedImage_init session v = (v', Inr self) \<longrightarrow>
      (\<exists>c. session = Some c \<and> cas_session self = Some c))"
  unfolding BiomedImage_init_def
  by (cases session)
     (auto simp: Let_def and_then_def call_def invoke_def return_def raise_def
        split: option.splits)


theorem init_without_session_raises_witness:
  "BiomedImage_init None (fresh ()) = (fresh (), Inl AttributeError) \<and>
   snd (BiomedImage_init (Some accepting) (fresh ())) = Inr \<lparr>cas_session = Some accepting\<rparr> \<and>
   (\<exists>c. Some accepting = Some c \<and> cas_session \<lparr>cas_session = Some accepting\<rparr> = Some c)"
proof -
  have res: "snd (BiomedImage_init (Some accepting) (fresh ())) = Inr \<lparr>cas_session = Some accepting\<rparr>"
    by (simp add: BiomedImage_init_def Let_def and_then_def call_def invoke_def return_def
          accepting_def fresh_def)
  then have run: "BiomedImage_init (Some accepting) (fresh ()) =
      (fst (BiomedImage_init (Some accepting) (fresh ())), Inr \<lparr>cas_session = Some accepting\<rparr>)"
    by (metis prod.collapse)
  from init_without_session_raises[of "fresh ()" "Some accepting" "fresh ()" _ "\<lparr>cas_session = Some accepting\<rparr>"] run res
  show ?thesis
    by blast
qed


section \<open>Sphericity quantification: theorems\<close>

lemma send_all_second:
  "send_all c h (r1 # r2 # rs) = (sent, err) \<Longrightarrow> c h r1 = None \<Longrightarrow> \<exists>sent'. sent = r1 # r2 # sent'"
  by (auto split: option.splits prod.splits)

lemma quantify_sphericity_execdirect:
  assumes run: "quantify_sphericity self image_table use_spacing input_background
             label_connectivity sphericity w = (w', res)"
      and mem: "r \<in> set (requests_of (issued w w'))"
      and act: "action_name r = ''fedsql.execdirect''"
  shows "r = Action ''fedsql.execdirect'' [PyStr (sphericity_sql sphericity)] []"
proof (cases "cas_session self")
  case None
  with run mem show ?thesis
    by (simp add: quantify_sphericity_None issued_def)
next
  case (Some c)
  from quantify_sphericity_run[OF Some run] obtain r1 sent err where
    r1: "action_name r1 = ''biomedimage.quantifybiomedimages''"
    and sa: "send_all c (requests_of (events w))
               [r1,
                Action ''fedsql.execdirect'' [PyStr (sphericity_sql sphericity)] [],
                Action ''table.dropTable'' [] [(''name'', PyStr ''quantify'')]] = (sent, err)"
    and ev: "events w' = events w @ map Request sent"
    by metis
  from ev mem have "r \<in> set sent"
    by (simp add: issued_append requests_of_map_Request)
  with set_mono_prefix[OF send_all_prefix[OF sa]]
  have "r \<in> {r1, Action ''fedsql.execdirect'' [PyStr (sphericity_sql sphericity)] [],
              Action ''table.dropTable'' [] [(''name'', PyStr ''quantify'')]}"
    by auto
  with r1 act show ?thesis
    by auto
qed

lemma quantify_sphericity_sends_statement:
  assumes Some: "cas_session self = Some c"
      and run: "quantify_sphericity self image_table use_spacing input_background
             label_connectivity sphericity w = (w', res)"
  shows "\<exists>r1 rest.
           issued w w' = Request r1 # rest \<and>
           action_name r1 = ''biomedimage.quantifybiomedimages'' \<and>
           (c (requests_of (events w)) r1 = None \<longrightarrow>
              (\<exists>rest'. rest = Request (Action ''fedsql.execdirect'' [PyStr (sphericity_sql sphericity)] []) # rest'))"
proof -
  from quantify_sphericity_run[OF Some run] obtain r1 sent err where
    r1: "action_name r1 = ''biomedimage.quantifybiomedimages''"
    and sa: "send_all c (requests_of (events w))
               [r1,
                Action ''fedsql.execdirect'' [PyStr (sphericity_sql sphericity)] [],
                Action ''table.dropTable'' [] [(''name'', PyStr ''quantify'')]] = (sent, err)"
    and ev: "events w' = events w @ map Request sent"
    by metis
  from send_all_nonempty[OF sa] obtain sent' where sent: "sent = r1 # sent'"
    by blast
  with ev have first: "issued w w' = Request r1 # map Request sent'"
    by (simp add: issued_append)
  have "\<exists>rest'. map Request sent' = Request (Action ''fedsql.execdirect'' [PyStr (sphericity_sql sphericity)] []) # rest'"
    if "c (requests_of (events w)) r1 = None"
  proof -
    from send_all_second[OF sa that] sent obtain sent'' where
      "sent' = Action ''fedsql.execdirect'' [PyStr (sphericity_sql sphericity)] [] # sent''"
      by auto
    then show ?thesis
      by simp
  qed
  then have second: "c (requests_of (events w)) r1 = None \<longrightarrow>
      (\<exists>rest'. map Request sent' =
         Request (Action ''fedsql.execdirect'' [PyStr (sphericity_sql sphericity)] []) # rest')"
    by (rule impI)
  show ?thesis
  proof (intro exI conjI)
    show "issued w w' = Request r1 # map Request sent'"
      by (fact first)
    show "action_name r1 = ''biomedimage.quantifybiomedimages''"
      by (fact r1)
    show "c (requests_of (events w)) r1 = None \<longrightarrow>
      (\<exists>rest'. map Request sent' =
         Request (Action ''fedsql.execdirect'' [PyStr (sphericity_sql sphericity)] []) # rest')"
      by (fact second)
  qed
qed

text \<open>
  C1. There is one SQL statement of \<^verbatim>\<open>quantify_sphericity\<close> which, up to layout, reads:
  create table (the caller's output name) as select \<^verbatim>\<open>_path_\<close>, \<^verbatim>\<open>_perimeter_\<close>,
  \<^verbatim>\<open>_content_\<close> and the expression
  \<^verbatim>\<open>(power(pi(), 1.0/3.0) * power(6*_content_, 2.0/3.0))/_perimeter_\<close> named
  \<^verbatim>\<open>sphericity\<close>, from the table \<^verbatim>\<open>quantify\<close>. With a session, the call always sends the
  quantification request first and, as soon as that request returns, submits this
  statement as its second request; and every SQL request of the call carries this
  statement.
\<close>

theorem quantify_sphericity_sql_statement:
  assumes run: "quantify_sphericity self image_table use_spacing input_background
             label_connectivity sphericity w = (w', res)"
  shows "\<exists>stmt.
           sql_tokens stmt =
             [''create'', ''table''] @ sql_tokens (name sphericity) @
             [''as'', ''select'', ''_path_'', '','', ''_perimeter_'', '','', ''_content_'', '','',
              ''('', ''power'', ''('', ''pi'', ''('', '')'', '','', ''1.0'', ''/'', ''3.0'', '')'',
              ''*'',
              ''power'', ''('', ''6'', ''*'', ''_content_'', '','', ''2.0'', ''/'', ''3.0'', '')'',
              '')'', ''/'', ''_perimeter_'',
              ''as'', ''sphericity'', ''from'', ''quantify''] \<and>
           (\<forall>c. cas_session self = Some c \<longrightarrow>
              (\<exists>r1 rest.
                 issued w w' = Request r1 # rest \<and>
                 action_name r1 = ''biomedimage.quantifybiomedimages'' \<and>
                 (c (requests_of (events w)) r1 = None \<longrightarrow>
                    (\<exists>rest'. rest =
                       Request (Action ''fedsql.execdirect'' [PyStr stmt] []) # rest')))) \<and>
           (\<forall>r \<in> set (requests_of (issued w w')).
              action_name r = ''fedsql.execdirect'' \<longrightarrow>
              r = Action ''fedsql.execdirect'' [PyStr stmt] [])"
proof (intro exI[of _ "sphericity_sql sphericity"] conjI allI impI ballI)
  show "sql_tokens (sphericity_sql sphericity) =
             [''create'', ''table''] @ sql_tokens (name sphericity) @
             [''as'', ''select'', ''_path_'', '','', ''_perimeter_'', '','', ''_content_'', '','',
              ''('', ''power'', ''('', ''pi'', ''('', '')'', '','', ''1.0'', ''/'', ''3.0'', '')'',
              ''*'',
              ''power'', ''('', ''6'', ''*'', ''_content_'', '','', ''2.0'', ''/'', ''3.0'', '')'',
              '')'', ''/'', ''_perimeter_'',
              ''as'', ''sphericity'', ''from'', ''quantify'']"
    by (rule sphericity_sql_tokens)
next
  fix c
  assume "cas_session self = Some c"
  then show "\<exists>r1 rest.
           issued w w' = Request r1 # rest \<and>
           action_name r1 = ''biomedimage.quantifybiomedimages'' \<and>
           (c (requests_of (events w)) r1 = None \<longrightarrow>
              (\<exists>rest'. rest = Request (Action ''fedsql.execdirect'' [PyStr (sphericity_sql sphericity)] []) # rest'))"
    using run by (rule quantify_sphericity_sends_statement)
next
  fix r
  assume "r \<in> set (requests_of (issued w w'))" "action_name r = ''fedsql.execdirect''"
  with run show "r = Action ''fedsql.execdirect'' [PyStr (sphericity_sql sphericity)] []"
    by (rule quantify_sphericity_execdirect)
qed

theorem quantify_sphericity_sql_statement_witness:
  "\<exists>r1 stmt rest.
     issued (fresh ()) (fst (quantify_example accepting)) =
       Request r1 # Request (Action ''fedsql.execdirect'' [PyStr stmt] []) # rest \<and>
     action_name r1 = ''biomedimage.quantifybiomedimages'' \<and>
     Action ''fedsql.execdirect'' [PyStr stmt] []
       \<in> set (requests_of (issued (fresh ()) (fst (quantify_example accepting)))) \<and>
     sql_tokens stmt =
       [''create'', ''table'', ''sphere'',
        ''as'', ''select'', ''_path_'', '','', ''_perimeter_'', '','', ''_content_'', '','',
        ''('', ''power'', ''('', ''pi'', ''('', '')'', '','', ''1.0'', ''/'', ''3.0'', '')'',
        ''*'',
        ''power'', ''('', ''6'', ''*'', ''_content_'', '','', ''2.0'', ''/'', ''3.0'', '')'',
        '')'', ''/'', ''_perimeter_'',
        ''as'', ''sphericity'', ''from'', ''quantify'']"
proof -
  let ?run = "quantify_example accepting"
  let ?iss = "issued (fresh ()) (fst ?run)"
  have "?run = (fst ?run, snd ?run)"
    by simp
  then have run: "quantify_sphericity (example_wrapper accepting) example_images True
      (PyInt 0) FACE \<lparr>name = ''sphere''\<rparr> (fresh ()) = (fst ?run, snd ?run)"
    by (simp only: quantify_example_def)
  have session: "cas_session (example_wrapper accepting) = Some accepting"
    by (simp add: example_wrapper_def)
  have returns: "accepting h r = None" for h r
    by (simp add: accepting_def)
  have nm: "sql_tokens (name \<lparr>name = ''sphere''\<rparr>) = [''sphere'']"
    by (simp add: sql_tokens_def is_space_def is_punct_def flush_def)
  from quantify_sphericity_sql_statement[OF run]
  obtain stmt where st:
    "sql_tokens stmt =
             [''create'', ''table''] @ sql_tokens (name \<lparr>name = ''sphere''\<rparr>) @
             [''as'', ''select'', ''_path_'', '','', ''_perimeter_'', '','', ''_content_'', '','',
              ''('', ''power'', ''('', ''pi'', ''('', '')'', '','', ''1.0'', ''/'', ''3.0'', '')'',
              ''*'',
              ''power'', ''('', ''6'', ''*'', ''_content_'', '','', ''2.0'', ''/'', ''3.0'', '')'',
              '')'', ''/'', ''_perimeter_'',
              ''as'', ''sphericity'', ''from'', ''quantify''] \<and>
     (\<forall>c. cas_session (example_wrapper accepting) = Some c \<longrightarrow>
        (\<exists>r1 rest.
           ?iss = Request r1 # rest \<and>
           action_name r1 = ''biomedimage.quantifybiomedimages'' \<and>
           (c (requests_of (events (fresh ()))) r1 = None \<longrightarrow>
              (\<exists>rest'. rest =
                 Request (Action ''fedsql.execdirect'' [PyStr stmt] []) # rest')))) \<and>
     (\<forall>r \<in> set (requests_of ?iss).
        action_name r = ''fedsql.execdirect'' \<longrightarrow>
        r = Action ''fedsql.execdirect'' [PyStr stmt] [])"
    ..
  note tok = conjunct1[OF st]
  from conjunct1[OF conjunct2[OF st], rule_format, OF session]
  obtain r1 where "\<exists>rest.
           ?iss = Request r1 # rest \<and>
           action_name r1 = ''biomedimage.quantifybiomedimages'' \<and>
           (accepting (requests_of (events (fresh ()))) r1 = None \<longrightarrow>
              (\<exists>rest'. rest =
                 Request (Action ''fedsql.execdirect'' [PyStr stmt] []) # rest'))"
    ..
  then obtain rest0 where p:
          "?iss = Request r1 # rest0 \<and>
           action_name r1 = ''biomedimage.quantifybiomedimages'' \<and>
           (accepting (requests_of (events (fresh ()))) r1 = None \<longrightarrow>
              (\<exists>rest'. rest0 =
                 Request (Action ''fedsql.execdirect'' [PyStr stmt] []) # rest'))"
    ..
  note a1 = conjunct1[OF conjunct2[OF p]]
  from conjunct2[OF conjunct2[OF p], rule_format, OF returns]
  obtain rest where "rest0 = Request (Action ''fedsql.execdirect'' [PyStr stmt] []) # rest"
    ..
  with conjunct1[OF p]
  have iss: "?iss = Request r1 # Request (Action ''fedsql.execdirect'' [PyStr stmt] []) # rest"
    by simp
  from iss have "Action ''fedsql.execdirect'' [PyStr stmt] [] \<in> set (requests_of ?iss)"
    by simp
  moreover from tok nm have "sql_tokens stmt =
       [''create'', ''table'', ''sphere'',
        ''as'', ''select'', ''_path_'', '','', ''_perimeter_'', '','', ''_content_'', '','',
        ''('', ''power'', ''('', ''pi'', ''('', '')'', '','', ''1.0'', ''/'', ''3.0'', '')'',
        ''*'',
        ''power'', ''('', ''6'', ''*'', ''_content_'', '','', ''2.0'', ''/'', ''3.0'', '')'',
        '')'', ''/'', ''_perimeter_'',
        ''as'', ''sphericity'', ''from'', ''quantify'']"
    by simp
  ultimately show ?thesis
    using iss a1 by (intro exI conjI)
qed

text \<open>
  C2, as the source has it. A call of \<^verbatim>\<open>quantify_sphericity\<close> that completes has sent
  exactly three requests: the quantification writing to \<^verbatim>\<open>quantify\<close>, the SQL statement
  containing the caller's output name, and the drop of \<^verbatim>\<open>quantify\<close>. No drop request
  names the caller's output table, provided that table is not itself called
  \<^verbatim>\<open>quantify\<close>: the name of the intermediate table is a fixed literal.
\<close>

theorem quantify_sphericity_request_order:
  assumes "quantify_sphericity self image_table use_spacing input_background
             label_connectivity sphericity w = (w', Inr ())"
  shows "\<exists>r1 stmt r3.
           issued w w' =
             [Request r1, Request (Action ''fedsql.execdirect'' [PyStr stmt] []), Request r3] \<and>
           action_name r1 = ''biomedimage.quantifybiomedimages'' \<and>
           keyword r1 ''casout'' = Some (PyDict [(''name'', PyStr ''quantify'')]) \<and>
           sublist (name sphericity) stmt \<and>
           drops_table r3 ''quantify'' \<and>
           (name sphericity \<noteq> ''quantify'' \<longrightarrow>
              (\<forall>r \<in> set (requests_of (issued w w')). \<not> drops_table r (name sphericity)))"
proof (cases "cas_session self")
  case None
  with assms show ?thesis
    by (simp add: quantify_sphericity_None)
next
  case (Some c)
  from quantify_sphericity_run[OF Some assms] obtain r1 sent err where
    r1: "action_name r1 = ''biomedimage.quantifybiomedimages''"
        "keyword r1 ''casout'' = Some (PyDict [(''name'', PyStr ''quantify'')])"
    and sa: "send_all c (requests_of (events w))
               [r1,
                Action ''fedsql.execdirect'' [PyStr (sphericity_sql sphericity)] [],
                Action ''table.dropTable'' [] [(''name'', PyStr ''quantify'')]] = (sent, err)"
    and ev: "events w' = events w @ map Request sent"
    and res: "Inr () = (case err of None \<Rightarrow> Inr () | Some e \<Rightarrow> (Inl e :: error + unit))"
    by metis
  from res have "err = None"
    by (cases err) simp_all
  with sa have sent: "sent = [r1,
                Action ''fedsql.execdirect'' [PyStr (sphericity_sql sphericity)] [],
                Action ''table.dropTable'' [] [(''name'', PyStr ''quantify'')]]"
    using send_all_returns by blast
  have iss: "issued w w' = [Request r1,
                Request (Action ''fedsql.execdirect'' [PyStr (sphericity_sql sphericity)] []),
                Request (Action ''table.dropTable'' [] [(''name'', PyStr ''quantify'')])]"
    using ev sent by (simp add: issued_append)
  have d3: "drops_table (Action ''table.dropTable'' [] [(''name'', PyStr ''quantify'')]) ''quantify''"
    by (simp add: drops_table_def)
  have nd: "name sphericity \<noteq> ''quantify'' \<longrightarrow>
      (\<forall>r \<in> set (requests_of (issued w w')). \<not> drops_table r (name sphericity))"
    using r1(1) by (auto simp: iss drops_table_def)
  from iss r1 d3 nd sphericity_sql_mentions_name[of sphericity] show ?thesis
    by blast
qed

theorem quantify_sphericity_request_order_witness:
  "snd (quantify_sphericity (example_wrapper accepting) example_images True (PyInt 0)
          FACE \<lparr>name = ''sphere''\<rparr> (fresh ())) = Inr () \<and>
   length (issued (fresh ())
     (fst (quantify_sphericity (example_wrapper accepting) example_images True (PyInt 0)
             FACE \<lparr>name = ''sphere''\<rparr> (fresh ())))) = 3 \<and>
   list_all (\<lambda>r. \<not> drops_table r ''sphere'')
     (requests_of (issued (fresh ())
        (fst (quantify_sphericity (example_wrapper accepting) example_images True (PyInt 0)
                FACE \<lparr>name = ''sphere''\<rparr> (fresh ())))))"
proof -
  let ?run = "quantify_sphericity (example_wrapper accepting) example_images True (PyInt 0)
                FACE \<lparr>name = ''sphere''\<rparr> (fresh ())"
  have res: "snd ?run = Inr ()"
    by (simp add: quantify_sphericity_def Let_def and_then_def call_def invoke_def
          accepting_def example_wrapper_def fresh_def)
  then have run: "?run = (fst ?run, Inr ())"
    by (metis prod.collapse)
  have ne: "name \<lparr>name = ''sphere''\<rparr> \<noteq> ''quantify''"
    by simp
  from quantify_sphericity_request_order[OF run] ne
  have "length (issued (fresh ()) (fst ?run)) = 3"
    and "\<forall>r \<in> set (requests_of (issued (fresh ()) (fst ?run))). \<not> drops_table r ''sphere''"
    by auto
  with res show ?thesis
    by (simp add: list_all_iff)
qed

text \<open>
  The claim as stated fails when the caller's output table is called \<^verbatim>\<open>quantify\<close>: the
  call completes on a session that accepts every request, and its drop request names the
  caller's output table.
\<close>

theorem quantify_sphericity_drops_output_named_quantify:
  "snd (quantify_sphericity (example_wrapper accepting) example_images True (PyInt 0)
          FACE \<lparr>name = ''quantify''\<rparr> (fresh ())) = Inr () \<and>
   Request (Action ''table.dropTable'' [] [(''name'', PyStr ''quantify'')])
     \<in> set (issued (fresh ())
          (fst (quantify_sphericity (example_wrapper accepting) example_images True (PyInt 0)
                  FACE \<lparr>name = ''quantify''\<rparr> (fresh ())))) \<and>
   drops_table (Action ''table.dropTable'' [] [(''name'', PyStr ''quantify'')])
     (name \<lparr>name = ''quantify''\<rparr>)"
  by (simp add: quantify_sphericity_def Let_def and_then_def call_def invoke_def
        accepting_def example_wrapper_def fresh_def issued_def drops_table_def)

section \<open>Image masking: auxiliary facts\<close>

lemma fed_sql_str_decoded_tokens:
  "sql_tokens (fed_sql_str_decoded mask_tbl image_tbl) =
     [''create'', ''table'', ''_images_to_mask_'', ''as'', ''select'',
      ''a.seg'', '','', ''a.dim'', '','', ''a.res'', '','', ''a.form'', '','', ''b.'', ''*'',
      ''from''] @ sql_tokens (name (table mask_tbl)) @
     [''as'', ''a'', ''inner'', ''join''] @ sql_tokens (name (table image_tbl)) @
     [''as'', ''b'', ''on'', ''a._id_'', ''='', ''b._id_'']"
  unfolding sql_tokens_def fed_sql_str_decoded_def
  by (simp add: sql_lex_splice is_space_def is_punct_def flush_def)

lemma fed_sql_str_encoded_tokens:
  "sql_tokens (fed_sql_str_encoded mask_tbl image_tbl) =
     [''create'', ''table'', ''_images_to_mask_'', ''as'', ''select'',
      ''a.seg'', '','', ''b.'', ''*'',
      ''from''] @ sql_tokens (name (table mask_tbl)) @
     [''as'', ''a'', ''inner'', ''join''] @ sql_tokens (name (table image_tbl)) @
     [''as'', ''b'', ''on'', ''a._id_'', ''='', ''b._id_'']"
  unfolding sql_tokens_def fed_sql_str_encoded_def
  by (simp add: sql_lex_splice is_space_def is_punct_def flush_def)

lemma rename_columns_decoded_run:
  "rename_columns_decoded w =
     (w\<lparr>events := events w @
            [Setattr ''image'' (PyStr ''seg''), Setattr ''dimension'' (PyStr ''dim''),
             Setattr ''resolution'' (PyStr ''res''), Setattr ''imageFormat'' (PyStr ''form'')],
        heap := (heap w)\<lparr>image_attr := ''seg'', dimension := ''dim'', resolution := ''res'',
                          imageFormat := ''form''\<rparr>\<rparr>, Inr ())"
  by (simp add: rename_columns_decoded_def and_then_def set_image_def set_dimension_def
        set_resolution_def set_imageFormat_def)

lemma rename_columns_encoded_run:
  "rename_columns_encoded w =
     (w\<lparr>events := events w @ [Setattr ''image'' (PyStr ''seg'')],
        heap := (heap w)\<lparr>image_attr := ''seg''\<rparr>\<rparr>, Inr ())"
  by (simp add: rename_columns_encoded_def set_image_def)

lemma mask_image_None:
  "cas_session self = None \<Longrightarrow>
   mask_image hdi self image_tbl casout input_background decode output_background
     add_columns copy_vars w = (w, Inl AttributeError)"
  by (simp add: mask_image_def Let_def and_then_def call_def raise_def split: prod.splits)

lemma mask_image_sends:
  assumes "cas_session self = Some c"
  shows "\<exists>r1 r3.
           mask_image hdi self image_tbl casout input_background decode output_background
             add_columns copy_vars w =
           (case send_all c (requests_of (events w))
                   [r1,
                    Action ''fedsql.execdirect''
                      [PyStr (if hdi (heap w) then fed_sql_str_decoded (heap w) image_tbl
                              else fed_sql_str_encoded (heap w) image_tbl)] [],
                    r3,
                    Action ''table.dropTable'' [PyTable \<lparr>name = ''_images_to_mask_''\<rparr>] []] of
              (sent, Some e) \<Rightarrow> (w\<lparr>events := events w @ map Request sent\<rparr>, Inl e)
            | (sent, None) \<Rightarrow>
                (if hdi (heap w) then rename_columns_decoded else rename_columns_encoded)
                  (w\<lparr>events := events w @ map Request sent\<rparr>)) \<and>
           r1 = Action ''table.altertable'' []
                  [(''name'', PyTable (table (heap w))),
                   (''columns'',
                      PyList (if hdi (heap w) then
                                [PyDict [(''name'', PyStr (image_attr (heap w))), (''rename'', PyStr ''seg'')],
                                 PyDict [(''name'', PyStr (dimension (heap w))), (''rename'', PyStr ''dim'')],
                                 PyDict [(''name'', PyStr (resolution (heap w))), (''rename'', PyStr ''res'')],
                                 PyDict [(''name'', PyStr (imageFormat (heap w))), (''rename'', PyStr ''form'')]]
                              else
                                [PyDict [(''name'', PyStr (image_attr (heap w))), (''rename'', PyStr ''seg'')]]))] \<and>
           action_name r3 = ''biomedimage.processbiomedimages''"
proof (cases "hdi (heap w)")
  case True
  show ?thesis
    unfolding mask_image_def Let_def assms
    apply (simp only: True if_True case_prod_conv four_calls_send_all)
    apply (intro exI conjI)
      apply (rule refl)
     apply (rule refl)
    apply simp
    done
next
  case False
  show ?thesis
    unfolding mask_image_def Let_def assms
    apply (simp only: False if_False case_prod_conv four_calls_send_all)
    apply (intro exI conjI)
      apply (rule refl)
     apply (rule refl)
    apply simp
    done
qed


lemma mask_image_run:
  assumes "cas_session self = Some c"
      and "mask_image hdi self image_tbl casout input_background decode output_background
             add_columns copy_vars w = (w', res)"
  obtains r1 r3 sent err where
    "action_name r1 = ''table.altertable''"
    "keyword r1 ''columns'' = Some (PyList (if hdi (heap w) then
                 [PyDict [(''name'', PyStr (image_attr (heap w))), (''rename'', PyStr ''seg'')],
                  PyDict [(''name'', PyStr (dimension (heap w))), (''rename'', PyStr ''dim'')],
                  PyDict [(''name'', PyStr (resolution (heap w))), (''rename'', PyStr ''res'')],
                  PyDict [(''name'', PyStr (imageFormat (heap w))), (''rename'', PyStr ''form'')]]
               else
                 [PyDict [(''name'', PyStr (image_attr (heap w))), (''rename'', PyStr ''seg'')]]))"
    "action_name r3 = ''biomedimage.processbiomedimages''"
    "send_all c (requests_of (events w))
       [r1,
        Action ''fedsql.execdirect''
          [PyStr (if hdi (heap w) then fed_sql_str_decoded (heap w) image_tbl
                  else fed_sql_str_encoded (heap w) image_tbl)] [],
        r3,
        Action ''table.dropTable'' [PyTable \<lparr>name = ''_images_to_mask_''\<rparr>] []] = (sent, err)"
    "events w' = events w @ map Request sent @
       (case err of Some e \<Rightarrow> [] | None \<Rightarrow> (if hdi (heap w) then
            [Setattr ''image'' (PyStr ''seg''), Setattr ''dimension'' (PyStr ''dim''),
             Setattr ''resolution'' (PyStr ''res''), Setattr ''imageFormat'' (PyStr ''form'')]
          else [Setattr ''image'' (PyStr ''seg'')]))"
    "heap w' = (case err of Some e \<Rightarrow> heap w | None \<Rightarrow> (if hdi (heap w) then
            (heap w)\<lparr>image_attr := ''seg'', dimension := ''dim'', resolution := ''res'',
                      imageFormat := ''form''\<rparr>
          else (heap w)\<lparr>image_attr := ''seg''\<rparr>))"
    "res = (case err of None \<Rightarrow> Inr () | Some e \<Rightarrow> Inl e)"
proof -
  from mask_image_sends[OF assms(1), of hdi image_tbl casout input_background decode
      output_background add_columns copy_vars w]
  obtain r1 r3 where
    run: "mask_image hdi self image_tbl casout input_background decode output_background
            add_columns copy_vars w =
          (case send_all c (requests_of (events w))
       [r1,
        Action ''fedsql.execdirect''
          [PyStr (if hdi (heap w) then fed_sql_str_decoded (heap w) image_tbl
                  else fed_sql_str_encoded (heap w) image_tbl)] [],
        r3,
        Action ''table.dropTable'' [PyTable \<lparr>name = ''_images_to_mask_''\<rparr>] []] of
             (sent, Some e) \<Rightarrow> (w\<lparr>events := events w @ map Request sent\<rparr>, Inl e)
           | (sent, None) \<Rightarrow>
               (if hdi (heap w) then rename_columns_decoded else rename_columns_encoded)
                 (w\<lparr>events := events w @ map Request sent\<rparr>))"
    and r1: "r1 = Action ''table.altertable'' []
                  [(''name'', PyTable (table (heap w))),
                   (''columns'',
                      PyList (if hdi (heap w) then
                                [PyDict [(''name'', PyStr (image_attr (heap w))), (''rename'', PyStr ''seg'')],
                                 PyDict [(''name'', PyStr (dimension (heap w))), (''rename'', PyStr ''dim'')],
                                 PyDict [(''name'', PyStr (resolution (heap w))), (''rename'', PyStr ''res'')],
                                 PyDict [(''name'', PyStr (imageFormat (heap w))), (''rename'', PyStr ''form'')]]
                              else
                                [PyDict [(''name'', PyStr (image_attr (heap w))), (''rename'', PyStr ''seg'')]]))]"
    and r3: "action_name r3 = ''biomedimage.processbiomedimages''"
    by blast
  obtain sent err where sa: "send_all c (requests_of (events w))
       [r1,
        Action ''fedsql.execdirect''
          [PyStr (if hdi (heap w) then fed_sql_str_decoded (heap w) image_tbl
                  else fed_sql_str_encoded (heap w) image_tbl)] [],
        r3,
        Action ''table.dropTable'' [PyTable \<lparr>name = ''_images_to_mask_''\<rparr>] []] = (sent, err)"
    by (cases "send_all c (requests_of (events w))
       [r1,
        Action ''fedsql.execdirect''
          [PyStr (if hdi (heap w) then fed_sql_str_decoded (heap w) image_tbl
                  else fed_sql_str_encoded (heap w) image_tbl)] [],
        r3,
        Action ''table.dropTable'' [PyTable \<lparr>name = ''_images_to_mask_''\<rparr>] []]")
  have a1: "action_name r1 = ''table.altertable''"
    by (simp add: r1)
  have k1: "keyword r1 ''columns'' = Some (PyList (if hdi (heap w) then
                 [PyDict [(''name'', PyStr (image_attr (heap w))), (''rename'', PyStr ''seg'')],
                  PyDict [(''name'', PyStr (dimension (heap w))), (''rename'', PyStr ''dim'')],
                  PyDict [(''name'', PyStr (resolution (heap w))), (''rename'', PyStr ''res'')],
                  PyDict [(''name'', PyStr (imageFormat (heap w))), (''rename'', PyStr ''form'')]]
               else
                 [PyDict [(''name'', PyStr (image_attr (heap w))), (''rename'', PyStr ''seg'')]]))"
    by (simp add: r1)
  from run sa assms(2)
  have ev: "events w' = events w @ map Request sent @
       (case err of Some e \<Rightarrow> [] | None \<Rightarrow> (if hdi (heap w) then
            [Setattr ''image'' (PyStr ''seg''), Setattr ''dimension'' (PyStr ''dim''),
             Setattr ''resolution'' (PyStr ''res''), Setattr ''imageFormat'' (PyStr ''form'')]
          else [Setattr ''image'' (PyStr ''seg'')]))"
    and hp: "heap w' = (case err of Some e \<Rightarrow> heap w | None \<Rightarrow> (if hdi (heap w) then
            (heap w)\<lparr>image_attr := ''seg'', dimension := ''dim'', resolution := ''res'',
                      imageFormat := ''form''\<rparr>
          else (heap w)\<lparr>image_attr := ''seg''\<rparr>))"
    and rs: "res = (case err of None \<Rightarrow> Inr () | Some e \<Rightarrow> Inl e)"
    by (auto simp: rename_columns_decoded_run rename_columns_encoded_run
          split: option.splits if_splits)
  from a1 k1 r3 sa ev hp rs show thesis
    by (rule that)
qed

lemma split_at_request:
  "map Request sent @ sets = evs1 @ Request r # evs2 \<Longrightarrow> list_all is_setattr sets \<Longrightarrow>
   \<exists>xs ys. sent = xs @ r # ys \<and> evs1 = map Request xs \<and> evs2 = map Request ys @ sets"
proof (induction sent arbitrary: evs1)
  case Nil
  then have "Request r \<in> set sets" by simp
  with Nil.prems(2) show ?case by (auto simp: list_all_iff)
next
  case (Cons a sent)
  show ?case
  proof (cases evs1)
    case Nil
    with Cons.prems(1) have "a = r" "evs2 = map Request sent @ sets" by simp_all
    with Nil show ?thesis by force
  next
    case (Cons x evs1')
    with Cons.prems(1) have x: "x = Request a" and eq: "map Request sent @ sets = evs1' @ Request r # evs2"
      by simp_all
    from Cons.IH[OF eq Cons.prems(2)] obtain xs ys where
      "sent = xs @ r # ys" "evs1' = map Request xs" "evs2 = map Request ys @ sets"
      by blast
    with x Cons have "a # sent = (a # xs) @ r # ys \<and> evs1 = map Request (a # xs) \<and>
        evs2 = map Request ys @ sets"
      by simp
    then show ?thesis by blast
  qed
qed

lemma split_at_setattr:
  "map Request sent @ sets = evs1 @ Setattr a v # evs2 \<Longrightarrow>
   \<exists>p. evs1 = map Request sent @ p \<and> sets = p @ Setattr a v # evs2"
proof (induction sent arbitrary: evs1)
  case Nil
  then show ?case by simp
next
  case (Cons x sent)
  show ?case
  proof (cases evs1)
    case Nil
    with Cons.prems show ?thesis by simp
  next
    case (Cons y evs1')
    with Cons.prems have "y = Request x" "map Request sent @ sets = evs1' @ Setattr a v # evs2"
      by simp_all
    with Cons.IH[of evs1'] Cons show ?thesis by auto
  qed
qed

lemma requests_of_setattrs: "list_all is_setattr evs \<Longrightarrow> requests_of evs = []"
  by (induction evs rule: requests_of.induct) simp_all

lemma sets_are_setattrs: "list_all is_setattr (if hdi (heap w) then
            [Setattr ''image'' (PyStr ''seg''), Setattr ''dimension'' (PyStr ''dim''),
             Setattr ''resolution'' (PyStr ''res''), Setattr ''imageFormat'' (PyStr ''form'')]
          else [Setattr ''image'' (PyStr ''seg'')])"
  by simp

lemma sets_nonempty: "(if hdi (heap w) then
            [Setattr ''image'' (PyStr ''seg''), Setattr ''dimension'' (PyStr ''dim''),
             Setattr ''resolution'' (PyStr ''res''), Setattr ''imageFormat'' (PyStr ''form'')]
          else [Setattr ''image'' (PyStr ''seg'')]) \<noteq> []"
  by simp

lemma join_creates_images_to_mask:
  "take 4 (sql_tokens (if hdi (heap w) then fed_sql_str_decoded (heap w) image_tbl
                        else fed_sql_str_encoded (heap w) image_tbl)) =
     [''create'', ''table'', ''_images_to_mask_'', ''as'']"
  by (simp add: fed_sql_str_decoded_tokens fed_sql_str_encoded_tokens)

lemma drops_images_to_mask: "drops_table (Action ''table.dropTable'' [PyTable \<lparr>name = ''_images_to_mask_''\<rparr>] []) ''_images_to_mask_''"
  by (simp add: drops_table_def)

lemma tail_setattrs:
  "list_all is_setattr (case err of Some e \<Rightarrow> [] | None \<Rightarrow> (if hdi (heap w) then
            [Setattr ''image'' (PyStr ''seg''), Setattr ''dimension'' (PyStr ''dim''),
             Setattr ''resolution'' (PyStr ''res''), Setattr ''imageFormat'' (PyStr ''form'')]
          else [Setattr ''image'' (PyStr ''seg'')]))"
  by (cases err) simp_all

lemma issued_requests:
  "events w' = events w @ map Request sent @ tail \<Longrightarrow> list_all is_setattr tail \<Longrightarrow>
   requests_of (issued w w') = sent"
  by (simp add: issued_append requests_of_append requests_of_map_Request requests_of_setattrs)

lemma pick_first:
  assumes "r \<in> set [r1, r2, r3, r4]"
      and "action_name r \<noteq> action_name r2"
      and "action_name r \<noteq> action_name r3"
      and "action_name r \<noteq> action_name r4"
  shows "r = r1"
  using assms by auto

lemma pick_second:
  assumes "r \<in> set [r1, r2, r3, r4]"
      and "action_name r \<noteq> action_name r1"
      and "action_name r \<noteq> action_name r3"
      and "action_name r \<noteq> action_name r4"
  shows "r = r2"
  using assms by auto

lemma prefix_four:
  "prefix ys [a, b, c, d] \<Longrightarrow>
   ys = [] \<or> ys = [a] \<or> ys = [a, b] \<or> ys = [a, b, c] \<or> ys = [a, b, c, d]"
  by (auto simp: prefix_Cons)

lemma prefix_three:
  "prefix ys [a, b, c] \<Longrightarrow> ys = [] \<or> ys = [a] \<or> ys = [a, b] \<or> ys = [a, b, c]"
  by (auto simp: prefix_Cons)

lemma abort_before_fourth:
  assumes "prefix (xs @ [r]) [r1, r2, r3, r4]"
      and "action_name r \<noteq> n" "action_name r1 \<noteq> n" "action_name r2 \<noteq> n"
          "action_name r3 \<noteq> n"
  shows "\<forall>x \<in> set (xs @ [r]). action_name x \<noteq> n"
  using prefix_four[OF assms(1)] assms(2-)
  by (elim disjE) (auto simp: append_eq_Cons_conv)

lemma abort_before_third:
  assumes "prefix (xs @ [r]) [r1, r2, r3]"
      and "action_name r \<noteq> n" "action_name r1 \<noteq> n" "action_name r2 \<noteq> n"
  shows "\<forall>x \<in> set (xs @ [r]). action_name x \<noteq> n"
  using prefix_three[OF assms(1)] assms(2-)
  by (elim disjE) (auto simp: append_eq_Cons_conv)

lemma abort_at_second:
  assumes "prefix (xs @ [r]) [r1, r2, r3, r4]"
      and "action_name r \<noteq> action_name r1" "action_name r \<noteq> action_name r3"
          "action_name r \<noteq> action_name r4"
  shows "xs = [r1] \<and> r = r2"
  using prefix_four[OF assms(1)] assms(2-)
  by (elim disjE) (auto simp: append_eq_Cons_conv)

lemma mask_image_abort:
  assumes Some: "cas_session self = Some c"
      and run: "mask_image hdi self image_tbl casout input_background decode output_background
             add_columns copy_vars w = (w', res)"
      and iss: "issued w w' = evs1 @ Request r # evs2"
      and raised: "c (requests_of (events w @ evs1)) r = Some e"
  obtains r1 r3 xs where
    "action_name r1 = ''table.altertable''"
    "action_name r3 = ''biomedimage.processbiomedimages''"
    "prefix (xs @ [r])
       [r1,
        Action ''fedsql.execdirect''
          [PyStr (if hdi (heap w) then fed_sql_str_decoded (heap w) image_tbl
                  else fed_sql_str_encoded (heap w) image_tbl)] [],
        r3,
        Action ''table.dropTable'' [PyTable \<lparr>name = ''_images_to_mask_''\<rparr>] []]"
    "issued w w' = map Request (xs @ [r])"
    "evs2 = []"
    "res = Inl e"
    "heap w' = heap w"
proof -
  obtain r1 r3 sent err where
      a1: "action_name r1 = ''table.altertable''"
      and k1: "keyword r1 ''columns'' = Some (PyList (if hdi (heap w) then
                 [PyDict [(''name'', PyStr (image_attr (heap w))), (''rename'', PyStr ''seg'')],
                  PyDict [(''name'', PyStr (dimension (heap w))), (''rename'', PyStr ''dim'')],
                  PyDict [(''name'', PyStr (resolution (heap w))), (''rename'', PyStr ''res'')],
                  PyDict [(''name'', PyStr (imageFormat (heap w))), (''rename'', PyStr ''form'')]]
               else
                 [PyDict [(''name'', PyStr (image_attr (heap w))), (''rename'', PyStr ''seg'')]]))"
      and a3: "action_name r3 = ''biomedimage.processbiomedimages''"
      and sa: "send_all c (requests_of (events w))
       [r1,
        Action ''fedsql.execdirect''
          [PyStr (if hdi (heap w) then fed_sql_str_decoded (heap w) image_tbl
                  else fed_sql_str_encoded (heap w) image_tbl)] [],
        r3,
        Action ''table.dropTable'' [PyTable \<lparr>name = ''_images_to_mask_''\<rparr>] []] = (sent, err)"
      and ev: "events w' = events w @ map Request sent @
         (case err of Some e \<Rightarrow> [] | None \<Rightarrow> (if hdi (heap w) then
            [Setattr ''image'' (PyStr ''seg''), Setattr ''dimension'' (PyStr ''dim''),
             Setattr ''resolution'' (PyStr ''res''), Setattr ''imageFormat'' (PyStr ''form'')]
          else [Setattr ''image'' (PyStr ''seg'')]))"
      and hp: "heap w' = (case err of Some e \<Rightarrow> heap w | None \<Rightarrow> (if hdi (heap w) then
            (heap w)\<lparr>image_attr := ''seg'', dimension := ''dim'', resolution := ''res'',
                      imageFormat := ''form''\<rparr>
          else (heap w)\<lparr>image_attr := ''seg''\<rparr>))"
      and rs: "res = (case err of None \<Rightarrow> Inr () | Some e \<Rightarrow> Inl e)"
      by (rule mask_image_run[OF Some run])
  let ?tail = "case err of Some e \<Rightarrow> [] | None \<Rightarrow> (if hdi (heap w) then
            [Setattr ''image'' (PyStr ''seg''), Setattr ''dimension'' (PyStr ''dim''),
             Setattr ''resolution'' (PyStr ''res''), Setattr ''imageFormat'' (PyStr ''form'')]
          else [Setattr ''image'' (PyStr ''seg'')])"
  from ev have iss': "issued w w' = map Request sent @ ?tail"
    by (simp add: issued_append)
  with iss have "map Request sent @ ?tail = evs1 @ Request r # evs2"
    by simp
  from split_at_request[OF this tail_setattrs[where err=err and hdi=hdi and w=w]]
  obtain xs ys where sent: "sent = xs @ r # ys" and evs1: "evs1 = map Request xs"
    and evs2: "evs2 = map Request ys @ ?tail"
    by blast
  from raised evs1 have "c (requests_of (events w) @ xs) r = Some e"
    by (simp add: requests_of_append requests_of_map_Request)
  from send_all_raise_last[OF sa[unfolded sent] this] have ys: "ys = []" and err: "err = Some e"
    by simp_all
  from send_all_prefix[OF sa] sent ys
  have pre: "prefix (xs @ [r])
       [r1,
        Action ''fedsql.execdirect''
          [PyStr (if hdi (heap w) then fed_sql_str_decoded (heap w) image_tbl
                  else fed_sql_str_encoded (heap w) image_tbl)] [],
        r3,
        Action ''table.dropTable'' [PyTable \<lparr>name = ''_images_to_mask_''\<rparr>] []]"
    by simp
  from iss' sent ys err have i2: "issued w w' = map Request (xs @ [r])"
    by simp
  from evs2 ys err have e2: "evs2 = []"
    by simp
  from rs err have r2: "res = Inl e"
    by simp
  from hp err have h2: "heap w' = heap w"
    by simp
  from a1 a3 pre i2 e2 r2 h2 show thesis
    by (rule that)
qed

lemma quantify_sphericity_abort:
  assumes Some: "cas_session self = Some c"
      and run: "quantify_sphericity self image_table use_spacing input_background
             label_connectivity sphericity w = (w', res)"
      and iss: "issued w w' = evs1 @ Request r # evs2"
      and raised: "c (requests_of (events w @ evs1)) r = Some e"
  obtains r1 xs where
    "action_name r1 = ''biomedimage.quantifybiomedimages''"
    "prefix (xs @ [r])
       [r1,
        Action ''fedsql.execdirect'' [PyStr (sphericity_sql sphericity)] [],
        Action ''table.dropTable'' [] [(''name'', PyStr ''quantify'')]]"
    "issued w w' = map Request (xs @ [r])"
    "evs2 = []"
    "res = Inl e"
    "heap w' = heap w"
proof -
  obtain r1 sent err where
    a1: "action_name r1 = ''biomedimage.quantifybiomedimages''"
    and k1: "keyword r1 ''casout'' = Some (PyDict [(''name'', PyStr ''quantify'')])"
    and sa: "send_all c (requests_of (events w))
       [r1,
        Action ''fedsql.execdirect'' [PyStr (sphericity_sql sphericity)] [],
        Action ''table.dropTable'' [] [(''name'', PyStr ''quantify'')]] = (sent, err)"
    and ev: "events w' = events w @ map Request sent"
    and hp: "heap w' = heap w"
    and rs: "res = (case err of None \<Rightarrow> Inr () | Some e \<Rightarrow> Inl e)"
    by (rule quantify_sphericity_run[OF Some run])
  from ev have iss': "issued w w' = map Request sent @ []"
    by (simp add: issued_append)
  with iss have "map Request sent @ [] = evs1 @ Request r # evs2"
    by simp
  from split_at_request[OF this]
  obtain xs ys where sent: "sent = xs @ r # ys" and evs1: "evs1 = map Request xs"
    and evs2: "evs2 = map Request ys @ []"
    by auto
  from raised evs1 have "c (requests_of (events w) @ xs) r = Some e"
    by (simp add: requests_of_append requests_of_map_Request)
  from send_all_raise_last[OF sa[unfolded sent] this] have ys: "ys = []" and err: "err = Some e"
    by simp_all
  from send_all_prefix[OF sa] sent ys
  have pre: "prefix (xs @ [r])
       [r1,
        Action ''fedsql.execdirect'' [PyStr (sphericity_sql sphericity)] [],
        Action ''table.dropTable'' [] [(''name'', PyStr ''quantify'')]]"
    by simp
  from iss' sent ys have i2: "issued w w' = map Request (xs @ [r])"
    by simp
  from evs2 ys have e2: "evs2 = []"
    by simp
  from rs err have r2: "res = Inl e"
    by simp
  from a1 pre i2 e2 r2 hp show thesis
    by (rule that)
qed

lemmas mask_eval = mask_example_def mask_image_def Let_def and_then_def call_def invoke_def
  example_wrapper_def fresh_def issued_def always_decoded_def never_decoded_def
  rename_columns_decoded_def rename_columns_encoded_def set_image_def set_dimension_def
  set_resolution_def set_imageFormat_def accepting_def failing_at_def

section \<open>Image masking: theorems\<close>

text \<open>
  C3. A call of \<^verbatim>\<open>mask_image\<close> that completes has sent, in this order, the alter-table
  request, the join statement creating \<^verbatim>\<open>_images_to_mask_\<close>, the process request and the
  drop of \<^verbatim>\<open>_images_to_mask_\<close>, and only then assigned the mask object's attributes. In any
  call, completed or not, an attribute assignment is preceded by exactly these four
  requests, the last of which is the drop and has returned.
\<close>

theorem mask_image_call_order:
  assumes run: "mask_image hdi self image_tbl casout input_background decode output_background
             add_columns copy_vars w = (w', res)"
  shows "(res = Inr () \<longrightarrow>
            (\<exists>r1 stmt r3 r4 sets.
               issued w w' =
                 [Request r1, Request (Action ''fedsql.execdirect'' [PyStr stmt] []),
                  Request r3, Request r4] @ sets \<and>
               action_name r1 = ''table.altertable'' \<and>
               take 4 (sql_tokens stmt) = [''create'', ''table'', ''_images_to_mask_'', ''as''] \<and>
               action_name r3 = ''biomedimage.processbiomedimages'' \<and>
               drops_table r4 ''_images_to_mask_'' \<and>
               sets \<noteq> [] \<and> list_all is_setattr sets)) \<and>
         (\<forall>evs1 a v evs2.
            issued w w' = evs1 @ Setattr a v # evs2 \<longrightarrow>
            (\<exists>c r1 r2 r3 r4.
               cas_session self = Some c \<and>
               take 4 evs1 = [Request r1, Request r2, Request r3, Request r4] \<and>
               requests_of evs1 = [r1, r2, r3, r4] \<and>
               drops_table r4 ''_images_to_mask_'' \<and>
               c (requests_of (events w) @ [r1, r2, r3]) r4 = None))"
proof (cases "cas_session self")
  case None
  with run have "w' = w" "res = Inl AttributeError"
    by (simp_all add: mask_image_None)
  then show ?thesis
    by (simp add: issued_def)
next
  case (Some c)
  obtain r1 r3 sent err where
      a1: "action_name r1 = ''table.altertable''"
      and k1: "keyword r1 ''columns'' = Some (PyList (if hdi (heap w) then
                 [PyDict [(''name'', PyStr (image_attr (heap w))), (''rename'', PyStr ''seg'')],
                  PyDict [(''name'', PyStr (dimension (heap w))), (''rename'', PyStr ''dim'')],
                  PyDict [(''name'', PyStr (resolution (heap w))), (''rename'', PyStr ''res'')],
                  PyDict [(''name'', PyStr (imageFormat (heap w))), (''rename'', PyStr ''form'')]]
               else
                 [PyDict [(''name'', PyStr (image_attr (heap w))), (''rename'', PyStr ''seg'')]]))"
      and a3: "action_name r3 = ''biomedimage.processbiomedimages''"
      and sa: "send_all c (requests_of (events w))
       [r1,
        Action ''fedsql.execdirect''
          [PyStr (if hdi (heap w) then fed_sql_str_decoded (heap w) image_tbl
                  else fed_sql_str_encoded (heap w) image_tbl)] [],
        r3,
        Action ''table.dropTable'' [PyTable \<lparr>name = ''_images_to_mask_''\<rparr>] []] = (sent, err)"
      and ev: "events w' = events w @ map Request sent @
         (case err of Some e \<Rightarrow> [] | None \<Rightarrow> (if hdi (heap w) then
            [Setattr ''image'' (PyStr ''seg''), Setattr ''dimension'' (PyStr ''dim''),
             Setattr ''resolution'' (PyStr ''res''), Setattr ''imageFormat'' (PyStr ''form'')]
          else [Setattr ''image'' (PyStr ''seg'')]))"
      and hp: "heap w' = (case err of Some e \<Rightarrow> heap w | None \<Rightarrow> (if hdi (heap w) then
            (heap w)\<lparr>image_attr := ''seg'', dimension := ''dim'', resolution := ''res'',
                      imageFormat := ''form''\<rparr>
          else (heap w)\<lparr>image_attr := ''seg''\<rparr>))"
      and rs: "res = (case err of None \<Rightarrow> Inr () | Some e \<Rightarrow> Inl e)"
      by (rule mask_image_run[OF Some run])
  let ?r2 = "Action ''fedsql.execdirect''
          [PyStr (if hdi (heap w) then fed_sql_str_decoded (heap w) image_tbl
                  else fed_sql_str_encoded (heap w) image_tbl)] []"
  let ?r4 = "Action ''table.dropTable'' [PyTable \<lparr>name = ''_images_to_mask_''\<rparr>] []"
  let ?sets = "(if hdi (heap w) then
            [Setattr ''image'' (PyStr ''seg''), Setattr ''dimension'' (PyStr ''dim''),
             Setattr ''resolution'' (PyStr ''res''), Setattr ''imageFormat'' (PyStr ''form'')]
          else [Setattr ''image'' (PyStr ''seg'')])"
  have completed: "err = None \<Longrightarrow> sent = [r1, ?r2, r3, ?r4] \<and>
      issued w w' = [Request r1, Request ?r2, Request r3, Request ?r4] @ ?sets"
  proof -
    assume none: "err = None"
    with sa have "sent = [r1, ?r2, r3, ?r4]"
      using send_all_returns by blast
    with ev none show ?thesis
      by (simp add: issued_append)
  qed
  have part1: "res = Inr () \<longrightarrow>
            (\<exists>r1 stmt r3 r4 sets.
               issued w w' =
                 [Request r1, Request (Action ''fedsql.execdirect'' [PyStr stmt] []),
                  Request r3, Request r4] @ sets \<and>
               action_name r1 = ''table.altertable'' \<and>
               take 4 (sql_tokens stmt) = [''create'', ''table'', ''_images_to_mask_'', ''as''] \<and>
               action_name r3 = ''biomedimage.processbiomedimages'' \<and>
               drops_table r4 ''_images_to_mask_'' \<and>
               sets \<noteq> [] \<and> list_all is_setattr sets)"
  proof
    assume "res = Inr ()"
    with rs have "err = None"
      by (cases err) simp_all
    from completed[OF this] a1 a3 join_creates_images_to_mask[of hdi w image_tbl]
      drops_images_to_mask sets_nonempty[of hdi w] sets_are_setattrs[of hdi w]
    show "\<exists>r1 stmt r3 r4 sets.
               issued w w' =
                 [Request r1, Request (Action ''fedsql.execdirect'' [PyStr stmt] []),
                  Request r3, Request r4] @ sets \<and>
               action_name r1 = ''table.altertable'' \<and>
               take 4 (sql_tokens stmt) = [''create'', ''table'', ''_images_to_mask_'', ''as''] \<and>
               action_name r3 = ''biomedimage.processbiomedimages'' \<and>
               drops_table r4 ''_images_to_mask_'' \<and>
               sets \<noteq> [] \<and> list_all is_setattr sets"
      by blast
  qed
  have part2: "\<exists>c r1 r2 r3 r4.
               cas_session self = Some c \<and>
               take 4 evs1 = [Request r1, Request r2, Request r3, Request r4] \<and>
               requests_of evs1 = [r1, r2, r3, r4] \<and>
               drops_table r4 ''_images_to_mask_'' \<and>
               c (requests_of (events w) @ [r1, r2, r3]) r4 = None"
    if iss: "issued w w' = evs1 @ Setattr a v # evs2" for evs1 a v evs2
  proof -
    have none: "err = None"
    proof (cases err)
      case None
      then show ?thesis .
    next
      case (Some e)
      with ev have "issued w w' = map Request sent @ []"
        by (simp add: issued_append)
      with iss split_at_setattr[of sent "[]" evs1 a v evs2] show ?thesis
        by simp
    qed
    from completed[OF none] have sent: "sent = [r1, ?r2, r3, ?r4]"
      and iss': "issued w w' = map Request sent @ ?sets"
      by simp_all
    from iss iss' split_at_setattr[of sent ?sets evs1 a v evs2]
    obtain p where evs1: "evs1 = map Request sent @ p" and p: "?sets = p @ Setattr a v # evs2"
      by auto
    from p sets_are_setattrs[of hdi w] have "list_all is_setattr (p @ Setattr a v # evs2)"
      by simp
    then have "list_all is_setattr p"
      by simp
    then have rp: "requests_of p = []"
      by (rule requests_of_setattrs)
    from evs1 rp have req: "requests_of evs1 = [r1, ?r2, r3, ?r4]"
      by (simp add: requests_of_append requests_of_map_Request sent)
    from evs1 sent have tk: "take 4 evs1 = [Request r1, Request ?r2, Request r3, Request ?r4]"
      by simp
    from sa none sent have "send_all c (requests_of (events w)) [r1, ?r2, r3, ?r4] =
        ([r1, ?r2, r3] @ ?r4 # [], None)"
      by simp
    then have "c (requests_of (events w) @ [r1, ?r2, r3]) ?r4 = None"
      by (rule send_all_completed_returned)
    with Some tk req drops_images_to_mask show ?thesis
      by blast
  qed
  from part1 part2 show ?thesis
    by blast
qed

theorem mask_image_call_order_witness:
  "snd (mask_example always_decoded accepting) = Inr () \<and>
   drop 4 (issued (fresh example_masks) (fst (mask_example always_decoded accepting))) \<noteq> [] \<and>
   list_all is_setattr
     (drop 4 (issued (fresh example_masks) (fst (mask_example always_decoded accepting)))) \<and>
   drops_table
     (requests_of (take 4 (issued (fresh example_masks)
        (fst (mask_example always_decoded accepting)))) ! 3) ''_images_to_mask_''"
proof -
  let ?run = "mask_example always_decoded accepting"
  let ?iss = "issued (fresh example_masks) (fst ?run)"
  have res: "snd ?run = Inr ()"
    by (simp add: mask_eval)
  then have "?run = (fst ?run, Inr ())"
    by (metis prod.collapse)
  then have run: "mask_image always_decoded (example_wrapper accepting) example_images
      \<lparr>name = ''masked''\<rparr> 0 False 0 PyNone PyNone (fresh example_masks) = (fst ?run, Inr ())"
    by (simp only: mask_example_def)
  have split: "?iss = take 4 ?iss @ Setattr ''image'' (PyStr ''seg'') # drop 5 ?iss"
    by (simp add: mask_eval)
  note inst = mask_image_call_order[OF run]
  from inst obtain r1 stmt r3 r4 sets where
    "?iss = [Request r1, Request (Action ''fedsql.execdirect'' [PyStr stmt] []),
             Request r3, Request r4] @ sets" "sets \<noteq> []" "list_all is_setattr sets"
    by blast
  then have a: "drop 4 ?iss \<noteq> []" "list_all is_setattr (drop 4 ?iss)"
    by simp_all
  from inst split obtain q1 q2 q3 q4 where
    "requests_of (take 4 ?iss) = [q1, q2, q3, q4]" "drops_table q4 ''_images_to_mask_''"
    by blast
  then have "drops_table (requests_of (take 4 ?iss) ! 3) ''_images_to_mask_''"
    by simp
  with res a show ?thesis
    by blast
qed

lemma mask_image_altertable_first:
  assumes run: "mask_image hdi self image_tbl casout input_background decode output_background
             add_columns copy_vars w = (w', res)"
      and mem: "r \<in> set (requests_of (issued w w'))"
      and act: "action_name r = ''table.altertable''"
  shows "(\<exists>rest. issued w w' = Request r # rest) \<and>
         keyword r ''columns'' = Some (PyList (if hdi (heap w) then
                 [PyDict [(''name'', PyStr (image_attr (heap w))), (''rename'', PyStr ''seg'')],
                  PyDict [(''name'', PyStr (dimension (heap w))), (''rename'', PyStr ''dim'')],
                  PyDict [(''name'', PyStr (resolution (heap w))), (''rename'', PyStr ''res'')],
                  PyDict [(''name'', PyStr (imageFormat (heap w))), (''rename'', PyStr ''form'')]]
               else
                 [PyDict [(''name'', PyStr (image_attr (heap w))), (''rename'', PyStr ''seg'')]]))"
proof (cases "cas_session self")
  case None
  with run mem show ?thesis
    by (simp add: mask_image_None issued_def)
next
  case (Some c)
  obtain r1 r3 sent err where
      a1: "action_name r1 = ''table.altertable''"
      and k1: "keyword r1 ''columns'' = Some (PyList (if hdi (heap w) then
                 [PyDict [(''name'', PyStr (image_attr (heap w))), (''rename'', PyStr ''seg'')],
                  PyDict [(''name'', PyStr (dimension (heap w))), (''rename'', PyStr ''dim'')],
                  PyDict [(''name'', PyStr (resolution (heap w))), (''rename'', PyStr ''res'')],
                  PyDict [(''name'', PyStr (imageFormat (heap w))), (''rename'', PyStr ''form'')]]
               else
                 [PyDict [(''name'', PyStr (image_attr (heap w))), (''rename'', PyStr ''seg'')]]))"
      and a3: "action_name r3 = ''biomedimage.processbiomedimages''"
      and sa: "send_all c (requests_of (events w))
       [r1,
        Action ''fedsql.execdirect''
          [PyStr (if hdi (heap w) then fed_sql_str_decoded (heap w) image_tbl
                  else fed_sql_str_encoded (heap w) image_tbl)] [],
        r3,
        Action ''table.dropTable'' [PyTable \<lparr>name = ''_images_to_mask_''\<rparr>] []] = (sent, err)"
      and ev: "events w' = events w @ map Request sent @
         (case err of Some e \<Rightarrow> [] | None \<Rightarrow> (if hdi (heap w) then
            [Setattr ''image'' (PyStr ''seg''), Setattr ''dimension'' (PyStr ''dim''),
             Setattr ''resolution'' (PyStr ''res''), Setattr ''imageFormat'' (PyStr ''form'')]
          else [Setattr ''image'' (PyStr ''seg'')]))"
      and hp: "heap w' = (case err of Some e \<Rightarrow> heap w | None \<Rightarrow> (if hdi (heap w) then
            (heap w)\<lparr>image_attr := ''seg'', dimension := ''dim'', resolution := ''res'',
                      imageFormat := ''form''\<rparr>
          else (heap w)\<lparr>image_attr := ''seg''\<rparr>))"
      and rs: "res = (case err of None \<Rightarrow> Inr () | Some e \<Rightarrow> Inl e)"
      by (rule mask_image_run[OF Some run])
  from send_all_nonempty[OF sa] obtain sent' where sent: "sent = r1 # sent'"
    by blast
  from issued_requests[OF ev tail_setattrs[where err=err and hdi=hdi and w=w]] mem have "r \<in> set sent"
    by simp
  with set_mono_prefix[OF send_all_prefix[OF sa]]
  have "r \<in> set [r1, Action ''fedsql.execdirect''
          [PyStr (if hdi (heap w) then fed_sql_str_decoded (heap w) image_tbl
                  else fed_sql_str_encoded (heap w) image_tbl)] [], r3, Action ''table.dropTable'' [PyTable \<lparr>name = ''_images_to_mask_''\<rparr>] []]"
    by blast
  then have "r = r1"
  proof (rule pick_first)
    show "action_name r \<noteq> action_name (Action ''fedsql.execdirect''
          [PyStr (if hdi (heap w) then fed_sql_str_decoded (heap w) image_tbl
                  else fed_sql_str_encoded (heap w) image_tbl)] [])"
      using act by simp
    show "action_name r \<noteq> action_name r3"
      using act a3 by simp
    show "action_name r \<noteq> action_name (Action ''table.dropTable'' [PyTable \<lparr>name = ''_images_to_mask_''\<rparr>] [])"
      using act by simp
  qed
  moreover from ev sent have "\<exists>rest. issued w w' = Request r1 # rest"
    by (simp add: issued_append)
  ultimately show ?thesis
    using k1 by simp
qed

lemma mask_image_sends_altertable:
  assumes Some: "cas_session self = Some c"
      and run: "mask_image hdi self image_tbl casout input_background decode output_background
             add_columns copy_vars w = (w', res)"
  shows "\<exists>r rest. issued w w' = Request r # rest \<and> action_name r = ''table.altertable'' \<and>
           keyword r ''columns'' = Some (PyList (if hdi (heap w) then
                 [PyDict [(''name'', PyStr (image_attr (heap w))), (''rename'', PyStr ''seg'')],
                  PyDict [(''name'', PyStr (dimension (heap w))), (''rename'', PyStr ''dim'')],
                  PyDict [(''name'', PyStr (resolution (heap w))), (''rename'', PyStr ''res'')],
                  PyDict [(''name'', PyStr (imageFormat (heap w))), (''rename'', PyStr ''form'')]]
               else
                 [PyDict [(''name'', PyStr (image_attr (heap w))), (''rename'', PyStr ''seg'')]]))"
proof -
  obtain r1 r3 sent err where
      a1: "action_name r1 = ''table.altertable''"
      and k1: "keyword r1 ''columns'' = Some (PyList (if hdi (heap w) then
                 [PyDict [(''name'', PyStr (image_attr (heap w))), (''rename'', PyStr ''seg'')],
                  PyDict [(''name'', PyStr (dimension (heap w))), (''rename'', PyStr ''dim'')],
                  PyDict [(''name'', PyStr (resolution (heap w))), (''rename'', PyStr ''res'')],
                  PyDict [(''name'', PyStr (imageFormat (heap w))), (''rename'', PyStr ''form'')]]
               else
                 [PyDict [(''name'', PyStr (image_attr (heap w))), (''rename'', PyStr ''seg'')]]))"
      and a3: "action_name r3 = ''biomedimage.processbiomedimages''"
      and sa: "send_all c (requests_of (events w))
       [r1,
        Action ''fedsql.execdirect''
          [PyStr (if hdi (heap w) then fed_sql_str_decoded (heap w) image_tbl
                  else fed_sql_str_encoded (heap w) image_tbl)] [],
        r3,
        Action ''table.dropTable'' [PyTable \<lparr>name = ''_images_to_mask_''\<rparr>] []] = (sent, err)"
      and ev: "events w' = events w @ map Request sent @
         (case err of Some e \<Rightarrow> [] | None \<Rightarrow> (if hdi (heap w) then
            [Setattr ''image'' (PyStr ''seg''), Setattr ''dimension'' (PyStr ''dim''),
             Setattr ''resolution'' (PyStr ''res''), Setattr ''imageFormat'' (PyStr ''form'')]
          else [Setattr ''image'' (PyStr ''seg'')]))"
      and hp: "heap w' = (case err of Some e \<Rightarrow> heap w | None \<Rightarrow> (if hdi (heap w) then
            (heap w)\<lparr>image_attr := ''seg'', dimension := ''dim'', resolution := ''res'',
                      imageFormat := ''form''\<rparr>
          else (heap w)\<lparr>image_attr := ''seg''\<rparr>))"
      and rs: "res = (case err of None \<Rightarrow> Inr () | Some e \<Rightarrow> Inl e)"
      by (rule mask_image_run[OF Some run])
  from send_all_nonempty[OF sa] obtain sent' where "sent = r1 # sent'"
    by blast
  with ev have first: "issued w w' = Request r1 # (map Request sent' @
         (case err of Some e \<Rightarrow> [] | None \<Rightarrow> (if hdi (heap w) then
            [Setattr ''image'' (PyStr ''seg''), Setattr ''dimension'' (PyStr ''dim''),
             Setattr ''resolution'' (PyStr ''res''), Setattr ''imageFormat'' (PyStr ''form'')]
          else [Setattr ''image'' (PyStr ''seg'')])))"
    by (simp add: issued_append)
  show ?thesis
  proof (intro exI conjI)
    show "issued w w' = Request r1 # (map Request sent' @
         (case err of Some e \<Rightarrow> [] | None \<Rightarrow> (if hdi (heap w) then
            [Setattr ''image'' (PyStr ''seg''), Setattr ''dimension'' (PyStr ''dim''),
             Setattr ''resolution'' (PyStr ''res''), Setattr ''imageFormat'' (PyStr ''form'')]
          else [Setattr ''image'' (PyStr ''seg'')])))"
      by (fact first)
    show "action_name r1 = ''table.altertable''"
      by (fact a1)
  qed (fact k1)
qed

text \<open>
  C4. With a session, every call of \<^verbatim>\<open>mask_image\<close> sends an alter-table request as its
  first request, in both branches. Its \<^verbatim>\<open>columns\<close> argument holds exactly four rename
  directives when \<^verbatim>\<open>mask.has_decoded_images()\<close> is true (image to \<^verbatim>\<open>seg\<close>, dimension to
  \<^verbatim>\<open>dim\<close>, resolution to \<^verbatim>\<open>res\<close>, imageFormat to \<^verbatim>\<open>form\<close>, each naming the attribute's
  value on entry) and exactly one (image to \<^verbatim>\<open>seg\<close>) when it is false. Every alter-table
  request of the call is that first request.
\<close>

theorem mask_image_alter_directives:
  assumes run: "mask_image hdi self image_tbl casout input_background decode output_background
             add_columns copy_vars w = (w', res)"
  shows "(\<forall>c. cas_session self = Some c \<longrightarrow>
            (\<exists>r rest. issued w w' = Request r # rest \<and>
               action_name r = ''table.altertable'' \<and>
               keyword r ''columns'' = Some (PyList (if hdi (heap w) then
                 [PyDict [(''name'', PyStr (image_attr (heap w))), (''rename'', PyStr ''seg'')],
                  PyDict [(''name'', PyStr (dimension (heap w))), (''rename'', PyStr ''dim'')],
                  PyDict [(''name'', PyStr (resolution (heap w))), (''rename'', PyStr ''res'')],
                  PyDict [(''name'', PyStr (imageFormat (heap w))), (''rename'', PyStr ''form'')]]
               else
                 [PyDict [(''name'', PyStr (image_attr (heap w))), (''rename'', PyStr ''seg'')]])))) \<and>
         (\<forall>r \<in> set (requests_of (issued w w')).
            action_name r = ''table.altertable'' \<longrightarrow>
            (\<exists>rest. issued w w' = Request r # rest) \<and>
            keyword r ''columns'' = Some (PyList (if hdi (heap w) then
                 [PyDict [(''name'', PyStr (image_attr (heap w))), (''rename'', PyStr ''seg'')],
                  PyDict [(''name'', PyStr (dimension (heap w))), (''rename'', PyStr ''dim'')],
                  PyDict [(''name'', PyStr (resolution (heap w))), (''rename'', PyStr ''res'')],
                  PyDict [(''name'', PyStr (imageFormat (heap w))), (''rename'', PyStr ''form'')]]
               else
                 [PyDict [(''name'', PyStr (image_attr (heap w))), (''rename'', PyStr ''seg'')]])))"
proof (intro conjI allI impI ballI)
  fix c
  assume "cas_session self = Some c"
  then show "\<exists>r rest. issued w w' = Request r # rest \<and>
               action_name r = ''table.altertable'' \<and>
               keyword r ''columns'' = Some (PyList (if hdi (heap w) then
                 [PyDict [(''name'', PyStr (image_attr (heap w))), (''rename'', PyStr ''seg'')],
                  PyDict [(''name'', PyStr (dimension (heap w))), (''rename'', PyStr ''dim'')],
                  PyDict [(''name'', PyStr (resolution (heap w))), (''rename'', PyStr ''res'')],
                  PyDict [(''name'', PyStr (imageFormat (heap w))), (''rename'', PyStr ''form'')]]
               else
                 [PyDict [(''name'', PyStr (image_attr (heap w))), (''rename'', PyStr ''seg'')]]))"
    using run by (rule mask_image_sends_altertable)
next
  fix r
  assume mem: "r \<in> set (requests_of (issued w w'))" and act: "action_name r = ''table.altertable''"
  from mask_image_altertable_first[OF run mem act]
  show "\<exists>rest. issued w w' = Request r # rest"
    and "keyword r ''columns'' = Some (PyList (if hdi (heap w) then
                 [PyDict [(''name'', PyStr (image_attr (heap w))), (''rename'', PyStr ''seg'')],
                  PyDict [(''name'', PyStr (dimension (heap w))), (''rename'', PyStr ''dim'')],
                  PyDict [(''name'', PyStr (resolution (heap w))), (''rename'', PyStr ''res'')],
                  PyDict [(''name'', PyStr (imageFormat (heap w))), (''rename'', PyStr ''form'')]]
               else
                 [PyDict [(''name'', PyStr (image_attr (heap w))), (''rename'', PyStr ''seg'')]]))"
    by simp_all
qed

theorem mask_image_alter_directives_witness:
  "(\<exists>r rest.
      issued (fresh example_masks) (fst (mask_example always_decoded accepting)) =
        Request r # rest \<and>
      action_name r = ''table.altertable'' \<and>
      r \<in> set (requests_of (issued (fresh example_masks)
                   (fst (mask_example always_decoded accepting)))) \<and>
      keyword r ''columns'' =
        Some (PyList
          [PyDict [(''name'', PyStr ''_image_''), (''rename'', PyStr ''seg'')],
           PyDict [(''name'', PyStr ''_dimension_''), (''rename'', PyStr ''dim'')],
           PyDict [(''name'', PyStr ''_resolution_''), (''rename'', PyStr ''res'')],
           PyDict [(''name'', PyStr ''_imageFormat_''), (''rename'', PyStr ''form'')]])) \<and>
   (\<exists>r rest.
      issued (fresh example_masks) (fst (mask_example never_decoded accepting)) =
        Request r # rest \<and>
      action_name r = ''table.altertable'' \<and>
      r \<in> set (requests_of (issued (fresh example_masks)
                   (fst (mask_example never_decoded accepting)))) \<and>
      keyword r ''columns'' =
        Some (PyList [PyDict [(''name'', PyStr ''_image_''), (''rename'', PyStr ''seg'')]]))"
proof -
  let ?dec = "mask_example always_decoded accepting"
  let ?enc = "mask_example never_decoded accepting"
  have session: "cas_session (example_wrapper accepting) = Some accepting"
    by (simp add: example_wrapper_def)
  have "?dec = (fst ?dec, snd ?dec)"
    by simp
  then have run_dec: "mask_image always_decoded (example_wrapper accepting) example_images
      \<lparr>name = ''masked''\<rparr> 0 False 0 PyNone PyNone (fresh example_masks) = (fst ?dec, snd ?dec)"
    by (simp only: mask_example_def)
  have "?enc = (fst ?enc, snd ?enc)"
    by simp
  then have run_enc: "mask_image never_decoded (example_wrapper accepting) example_images
      \<lparr>name = ''masked''\<rparr> 0 False 0 PyNone PyNone (fresh example_masks) = (fst ?enc, snd ?enc)"
    by (simp only: mask_example_def)
  from mask_image_alter_directives[OF run_dec] session
  obtain r rest where
    "issued (fresh example_masks) (fst ?dec) = Request r # rest"
    "action_name r = ''table.altertable''"
    "keyword r ''columns'' =
        Some (PyList
          [PyDict [(''name'', PyStr ''_image_''), (''rename'', PyStr ''seg'')],
           PyDict [(''name'', PyStr ''_dimension_''), (''rename'', PyStr ''dim'')],
           PyDict [(''name'', PyStr ''_resolution_''), (''rename'', PyStr ''res'')],
           PyDict [(''name'', PyStr ''_imageFormat_''), (''rename'', PyStr ''form'')]])"
    by (auto simp: always_decoded_def fresh_def example_masks_def)
  then have dec: "\<exists>r rest.
      issued (fresh example_masks) (fst ?dec) = Request r # rest \<and>
      action_name r = ''table.altertable'' \<and>
      r \<in> set (requests_of (issued (fresh example_masks) (fst ?dec))) \<and>
      keyword r ''columns'' =
        Some (PyList
          [PyDict [(''name'', PyStr ''_image_''), (''rename'', PyStr ''seg'')],
           PyDict [(''name'', PyStr ''_dimension_''), (''rename'', PyStr ''dim'')],
           PyDict [(''name'', PyStr ''_resolution_''), (''rename'', PyStr ''res'')],
           PyDict [(''name'', PyStr ''_imageFormat_''), (''rename'', PyStr ''form'')]])"
    by simp
  from mask_image_alter_directives[OF run_enc] session
  obtain r' rest' where
    "issued (fresh example_masks) (fst ?enc) = Request r' # rest'"
    "action_name r' = ''table.altertable''"
    "keyword r' ''columns'' =
        Some (PyList [PyDict [(''name'', PyStr ''_image_''), (''rename'', PyStr ''seg'')]])"
    by (auto simp: never_decoded_def fresh_def example_masks_def)
  then have enc: "\<exists>r rest.
      issued (fresh example_masks) (fst ?enc) = Request r # rest \<and>
      action_name r = ''table.altertable'' \<and>
      r \<in> set (requests_of (issued (fresh example_masks) (fst ?enc))) \<and>
      keyword r ''columns'' =
        Some (PyList [PyDict [(''name'', PyStr ''_image_''), (''rename'', PyStr ''seg'')]])"
    by simp
  from dec enc show ?thesis
    by (rule conjI)
qed

text \<open>
  C5. After a call of \<^verbatim>\<open>mask_image\<close> that completes, the mask object has
  \<^verbatim>\<open>image = "seg"\<close>, and in the decoded branch also \<^verbatim>\<open>dimension = "dim"\<close>,
  \<^verbatim>\<open>resolution = "res"\<close>, \<^verbatim>\<open>imageFormat = "form"\<close>; every other attribute keeps its value.
  These are the rename targets of the alter-table request the call began with.
\<close>

theorem mask_image_renames_mask_object:
  assumes run: "mask_image hdi self image_tbl casout input_background decode output_background
             add_columns copy_vars w = (w', Inr ())"
  shows "heap w' = (if hdi (heap w) then
            (heap w)\<lparr>image_attr := ''seg'', dimension := ''dim'', resolution := ''res'',
                      imageFormat := ''form''\<rparr>
          else (heap w)\<lparr>image_attr := ''seg''\<rparr>) \<and>
         (\<exists>r rest. issued w w' = Request r # rest \<and> action_name r = ''table.altertable'' \<and>
              keyword r ''columns'' =
                Some (PyList (if hdi (heap w) then
                   [PyDict [(''name'', PyStr (image_attr (heap w))), (''rename'', PyStr (image_attr (heap w')))],
                    PyDict [(''name'', PyStr (dimension (heap w))), (''rename'', PyStr (dimension (heap w')))],
                    PyDict [(''name'', PyStr (resolution (heap w))), (''rename'', PyStr (resolution (heap w')))],
                    PyDict [(''name'', PyStr (imageFormat (heap w))), (''rename'', PyStr (imageFormat (heap w')))]]
                 else
                   [PyDict [(''name'', PyStr (image_attr (heap w))), (''rename'', PyStr (image_attr (heap w')))]])))"
proof (cases "cas_session self")
  case None
  with run show ?thesis
    by (simp add: mask_image_None)
next
  case (Some c)
  from run obtain res where run: "mask_image hdi self image_tbl casout input_background decode output_background
             add_columns copy_vars w = (w', res)" and res: "res = Inr ()"
    by simp
  obtain r1 r3 sent err where
      a1: "action_name r1 = ''table.altertable''"
      and k1: "keyword r1 ''columns'' = Some (PyList (if hdi (heap w) then
                 [PyDict [(''name'', PyStr (image_attr (heap w))), (''rename'', PyStr ''seg'')],
                  PyDict [(''name'', PyStr (dimension (heap w))), (''rename'', PyStr ''dim'')],
                  PyDict [(''name'', PyStr (resolution (heap w))), (''rename'', PyStr ''res'')],
                  PyDict [(''name'', PyStr (imageFormat (heap w))), (''rename'', PyStr ''form'')]]
               else
                 [PyDict [(''name'', PyStr (image_attr (heap w))), (''rename'', PyStr ''seg'')]]))"
      and a3: "action_name r3 = ''biomedimage.processbiomedimages''"
      and sa: "send_all c (requests_of (events w))
       [r1,
        Action ''fedsql.execdirect''
          [PyStr (if hdi (heap w) then fed_sql_str_decoded (heap w) image_tbl
                  else fed_sql_str_encoded (heap w) image_tbl)] [],
        r3,
        Action ''table.dropTable'' [PyTable \<lparr>name = ''_images_to_mask_''\<rparr>] []] = (sent, err)"
      and ev: "events w' = events w @ map Request sent @
         (case err of Some e \<Rightarrow> [] | None \<Rightarrow> (if hdi (heap w) then
            [Setattr ''image'' (PyStr ''seg''), Setattr ''dimension'' (PyStr ''dim''),
             Setattr ''resolution'' (PyStr ''res''), Setattr ''imageFormat'' (PyStr ''form'')]
          else [Setattr ''image'' (PyStr ''seg'')]))"
      and hp: "heap w' = (case err of Some e \<Rightarrow> heap w | None \<Rightarrow> (if hdi (heap w) then
            (heap w)\<lparr>image_attr := ''seg'', dimension := ''dim'', resolution := ''res'',
                      imageFormat := ''form''\<rparr>
          else (heap w)\<lparr>image_attr := ''seg''\<rparr>))"
      and rs: "res = (case err of None \<Rightarrow> Inr () | Some e \<Rightarrow> Inl e)"
      by (rule mask_image_run[OF Some run])
  from rs res have none: "err = None"
    by (cases err) simp_all
  with hp have h: "heap w' = (if hdi (heap w) then
            (heap w)\<lparr>image_attr := ''seg'', dimension := ''dim'', resolution := ''res'',
                      imageFormat := ''form''\<rparr>
          else (heap w)\<lparr>image_attr := ''seg''\<rparr>)"
    by simp
  from send_all_nonempty[OF sa] obtain sent' where sent: "sent = r1 # sent'"
    by blast
  with ev have first: "\<exists>rest. issued w w' = Request r1 # rest"
    by (simp add: issued_append)
  have "keyword r1 ''columns'' =
                Some (PyList (if hdi (heap w) then
                   [PyDict [(''name'', PyStr (image_attr (heap w))), (''rename'', PyStr (image_attr (heap w')))],
                    PyDict [(''name'', PyStr (dimension (heap w))), (''rename'', PyStr (dimension (heap w')))],
                    PyDict [(''name'', PyStr (resolution (heap w))), (''rename'', PyStr (resolution (heap w')))],
                    PyDict [(''name'', PyStr (imageFormat (heap w))), (''rename'', PyStr (imageFormat (heap w')))]]
                 else
                   [PyDict [(''name'', PyStr (image_attr (heap w))), (''rename'', PyStr (image_attr (heap w')))]]))"
    using k1 h by simp
  with first a1 h show ?thesis
    by blast
qed

theorem mask_image_renames_mask_object_witness:
  "snd (mask_example never_decoded accepting) = Inr () \<and>
   heap (fst (mask_example never_decoded accepting)) = example_masks\<lparr>image_attr := ''seg''\<rparr> \<and>
   snd (mask_example always_decoded accepting) = Inr () \<and>
   heap (fst (mask_example always_decoded accepting)) =
     example_masks\<lparr>image_attr := ''seg'', dimension := ''dim'', resolution := ''res'',
                    imageFormat := ''form''\<rparr>"
proof -
  let ?enc = "mask_example never_decoded accepting"
  let ?dec = "mask_example always_decoded accepting"
  have res_enc: "snd ?enc = Inr ()"
    by (simp add: mask_eval)
  then have "?enc = (fst ?enc, Inr ())"
    by (metis prod.collapse)
  then have run_enc: "mask_image never_decoded (example_wrapper accepting) example_images
      \<lparr>name = ''masked''\<rparr> 0 False 0 PyNone PyNone (fresh example_masks) = (fst ?enc, Inr ())"
    by (simp only: mask_example_def)
  have res_dec: "snd ?dec = Inr ()"
    by (simp add: mask_eval)
  then have "?dec = (fst ?dec, Inr ())"
    by (metis prod.collapse)
  then have run_dec: "mask_image always_decoded (example_wrapper accepting) example_images
      \<lparr>name = ''masked''\<rparr> 0 False 0 PyNone PyNone (fresh example_masks) = (fst ?dec, Inr ())"
    by (simp only: mask_example_def)
  from mask_image_renames_mask_object[OF run_enc] have "heap (fst ?enc) = example_masks\<lparr>image_attr := ''seg''\<rparr>"
    by (simp add: never_decoded_def fresh_def)
  moreover from mask_image_renames_mask_object[OF run_dec] have "heap (fst ?dec) =
     example_masks\<lparr>image_attr := ''seg'', dimension := ''dim'', resolution := ''res'',
                    imageFormat := ''form''\<rparr>"
    by (simp add: always_decoded_def fresh_def)
  ultimately show ?thesis
    using res_enc res_dec by simp
qed

text \<open>
  C6. If the session raises on the join statement of \<^verbatim>\<open>mask_image\<close>, the call ends there
  with that error: nothing is sent afterwards, in particular no process request, no
  attribute of the mask object is assigned, and the object is as it was on entry.
\<close>

theorem mask_image_join_failure:
  assumes Some: "cas_session self = Some c"
      and run: "mask_image hdi self image_tbl casout input_background decode output_background
             add_columns copy_vars w = (w', res)"
      and iss: "issued w w' = evs1 @ Request r # evs2"
      and act: "action_name r = ''fedsql.execdirect''"
      and raised: "c (requests_of (events w @ evs1)) r = Some e"
  shows "res = Inl e \<and> evs2 = [] \<and> heap w' = heap w \<and>
         (\<forall>ev \<in> set (issued w w'). \<not> is_setattr ev) \<and>
         (\<forall>x \<in> set (requests_of (issued w w')).
            action_name x \<noteq> ''biomedimage.processbiomedimages'')"
proof -
  obtain r1 r3 xs where
    a1: "action_name r1 = ''table.altertable''"
    and a3: "action_name r3 = ''biomedimage.processbiomedimages''"
    and pre: "prefix (xs @ [r])
       [r1,
        Action ''fedsql.execdirect''
          [PyStr (if hdi (heap w) then fed_sql_str_decoded (heap w) image_tbl
                  else fed_sql_str_encoded (heap w) image_tbl)] [],
        r3,
        Action ''table.dropTable'' [PyTable \<lparr>name = ''_images_to_mask_''\<rparr>] []]"
    and i2: "issued w w' = map Request (xs @ [r])"
    and e2: "evs2 = []"
    and r2: "res = Inl e"
    and h2: "heap w' = heap w"
    by (rule mask_image_abort[OF Some run iss raised])
  from pre have "xs = [r1] \<and> r = Action ''fedsql.execdirect''
          [PyStr (if hdi (heap w) then fed_sql_str_decoded (heap w) image_tbl
                  else fed_sql_str_encoded (heap w) image_tbl)] []"
  proof (rule abort_at_second)
    show "action_name r \<noteq> action_name r1"
      using act a1 by simp
    show "action_name r \<noteq> action_name r3"
      using act a3 by simp
    show "action_name r \<noteq> action_name (Action ''table.dropTable'' [PyTable \<lparr>name = ''_images_to_mask_''\<rparr>] [])"
      using act by simp
  qed
  with i2 have "issued w w' = [Request r1, Request r]"
    by simp
  with a1 act e2 r2 h2 show ?thesis
    by simp
qed

theorem mask_image_join_failure_witness:
  "action_name (requests_of (issued (fresh example_masks)
      (fst (mask_example always_decoded (failing_at 1)))) ! 1) = ''fedsql.execdirect'' \<and>
   snd (mask_example always_decoded (failing_at 1)) = Inl (Raised ''remote failure'') \<and>
   drop 2 (issued (fresh example_masks) (fst (mask_example always_decoded (failing_at 1)))) = [] \<and>
   heap (fst (mask_example always_decoded (failing_at 1))) = example_masks \<and>
   list_all (\<lambda>x. action_name x \<noteq> ''biomedimage.processbiomedimages'')
     (requests_of (issued (fresh example_masks)
        (fst (mask_example always_decoded (failing_at 1)))))"
proof -
  let ?run = "mask_example always_decoded (failing_at 1)"
  let ?iss = "issued (fresh example_masks) (fst ?run)"
  let ?r = "requests_of ?iss ! 1"
  have session: "cas_session (example_wrapper (failing_at 1)) = Some (failing_at 1)"
    by (simp add: example_wrapper_def)
  have "?run = (fst ?run, snd ?run)"
    by simp
  then have run: "mask_image always_decoded (example_wrapper (failing_at 1)) example_images
      \<lparr>name = ''masked''\<rparr> 0 False 0 PyNone PyNone (fresh example_masks) = (fst ?run, snd ?run)"
    by (simp only: mask_example_def)
  have iss: "?iss = take 1 ?iss @ Request ?r # drop 2 ?iss"
    by (simp add: mask_eval)
  have act: "action_name ?r = ''fedsql.execdirect''"
    by (simp add: mask_eval)
  have raised: "failing_at 1 (requests_of (events (fresh example_masks) @ take 1 ?iss)) ?r =
      Some (Raised ''remote failure'')"
    by (simp add: mask_eval)
  from mask_image_join_failure[OF session run iss act raised] act show ?thesis
    by (simp add: list_all_iff fresh_def)
qed

lemma mask_image_execdirect:
  assumes run: "mask_image hdi self image_tbl casout input_background decode output_background
             add_columns copy_vars w = (w', res)"
      and mem: "r \<in> set (requests_of (issued w w'))"
      and act: "action_name r = ''fedsql.execdirect''"
  shows "r = Action ''fedsql.execdirect''
          [PyStr (if hdi (heap w) then fed_sql_str_decoded (heap w) image_tbl
                  else fed_sql_str_encoded (heap w) image_tbl)] []"
proof (cases "cas_session self")
  case None
  with run mem show ?thesis
    by (simp add: mask_image_None issued_def)
next
  case (Some c)
  obtain r1 r3 sent err where
      a1: "action_name r1 = ''table.altertable''"
      and k1: "keyword r1 ''columns'' = Some (PyList (if hdi (heap w) then
                 [PyDict [(''name'', PyStr (image_attr (heap w))), (''rename'', PyStr ''seg'')],
                  PyDict [(''name'', PyStr (dimension (heap w))), (''rename'', PyStr ''dim'')],
                  PyDict [(''name'', PyStr (resolution (heap w))), (''rename'', PyStr ''res'')],
                  PyDict [(''name'', PyStr (imageFormat (heap w))), (''rename'', PyStr ''form'')]]
               else
                 [PyDict [(''name'', PyStr (image_attr (heap w))), (''rename'', PyStr ''seg'')]]))"
      and a3: "action_name r3 = ''biomedimage.processbiomedimages''"
      and sa: "send_all c (requests_of (events w))
       [r1,
        Action ''fedsql.execdirect''
          [PyStr (if hdi (heap w) then fed_sql_str_decoded (heap w) image_tbl
                  else fed_sql_str_encoded (heap w) image_tbl)] [],
        r3,
        Action ''table.dropTable'' [PyTable \<lparr>name = ''_images_to_mask_''\<rparr>] []] = (sent, err)"
      and ev: "events w' = events w @ map Request sent @
         (case err of Some e \<Rightarrow> [] | None \<Rightarrow> (if hdi (heap w) then
            [Setattr ''image'' (PyStr ''seg''), Setattr ''dimension'' (PyStr ''dim''),
             Setattr ''resolution'' (PyStr ''res''), Setattr ''imageFormat'' (PyStr ''form'')]
          else [Setattr ''image'' (PyStr ''seg'')]))"
      and hp: "heap w' = (case err of Some e \<Rightarrow> heap w | None \<Rightarrow> (if hdi (heap w) then
            (heap w)\<lparr>image_attr := ''seg'', dimension := ''dim'', resolution := ''res'',
                      imageFormat := ''form''\<rparr>
          else (heap w)\<lparr>image_attr := ''seg''\<rparr>))"
      and rs: "res = (case err of None \<Rightarrow> Inr () | Some e \<Rightarrow> Inl e)"
      by (rule mask_image_run[OF Some run])
  from issued_requests[OF ev tail_setattrs[where err=err and hdi=hdi and w=w]] mem
  have "r \<in> set sent"
    by simp
  with set_mono_prefix[OF send_all_prefix[OF sa]]
  have "r \<in> set [r1, Action ''fedsql.execdirect''
          [PyStr (if hdi (heap w) then fed_sql_str_decoded (heap w) image_tbl
                  else fed_sql_str_encoded (heap w) image_tbl)] [], r3, Action ''table.dropTable'' [PyTable \<lparr>name = ''_images_to_mask_''\<rparr>] []]"
    by blast
  then show "r = Action ''fedsql.execdirect''
          [PyStr (if hdi (heap w) then fed_sql_str_decoded (heap w) image_tbl
                  else fed_sql_str_encoded (heap w) image_tbl)] []"
  proof (rule pick_second)
    show "action_name r \<noteq> action_name r1"
      using act a1 by simp
    show "action_name r \<noteq> action_name r3"
      using act a3 by simp
    show "action_name r \<noteq> action_name (Action ''table.dropTable'' [PyTable \<lparr>name = ''_images_to_mask_''\<rparr>] [])"
      using act by simp
  qed
qed

lemma join_statement_tokens:
  "sql_tokens (if hdi (heap w) then fed_sql_str_decoded (heap w) image_tbl
                  else fed_sql_str_encoded (heap w) image_tbl) =
             [''create'', ''table'', ''_images_to_mask_'', ''as'', ''select''] @
             (if hdi (heap w)
              then [''a.seg'', '','', ''a.dim'', '','', ''a.res'', '','', ''a.form'', '','']
              else [''a.seg'', '','']) @
             [''b.'', ''*'', ''from''] @ sql_tokens (name (table (heap w))) @
             [''as'', ''a'', ''inner'', ''join''] @ sql_tokens (name (table image_tbl)) @
             [''as'', ''b'', ''on'', ''a._id_'', ''='', ''b._id_'']"
  by (simp add: fed_sql_str_decoded_tokens fed_sql_str_encoded_tokens)

lemma mask_image_sends_join:
  assumes Some: "cas_session self = Some c"
      and run: "mask_image hdi self image_tbl casout input_background decode output_background
             add_columns copy_vars w = (w', res)"
  shows "\<exists>r1 rest.
           issued w w' = Request r1 # rest \<and>
           action_name r1 = ''table.altertable'' \<and>
           (c (requests_of (events w)) r1 = None \<longrightarrow>
              (\<exists>rest'. rest = Request (Action ''fedsql.execdirect''
          [PyStr (if hdi (heap w) then fed_sql_str_decoded (heap w) image_tbl
                  else fed_sql_str_encoded (heap w) image_tbl)] []) # rest'))"
proof -
  obtain r1 r3 sent err where
      a1: "action_name r1 = ''table.altertable''"
      and k1: "keyword r1 ''columns'' = Some (PyList (if hdi (heap w) then
                 [PyDict [(''name'', PyStr (image_attr (heap w))), (''rename'', PyStr ''seg'')],
                  PyDict [(''name'', PyStr (dimension (heap w))), (''rename'', PyStr ''dim'')],
                  PyDict [(''name'', PyStr (resolution (heap w))), (''rename'', PyStr ''res'')],
                  PyDict [(''name'', PyStr (imageFormat (heap w))), (''rename'', PyStr ''form'')]]
               else
                 [PyDict [(''name'', PyStr (image_attr (heap w))), (''rename'', PyStr ''seg'')]]))"
      and a3: "action_name r3 = ''biomedimage.processbiomedimages''"
      and sa: "send_all c (requests_of (events w))
       [r1,
        Action ''fedsql.execdirect''
          [PyStr (if hdi (heap w) then fed_sql_str_decoded (heap w) image_tbl
                  else fed_sql_str_encoded (heap w) image_tbl)] [],
        r3,
        Action ''table.dropTable'' [PyTable \<lparr>name = ''_images_to_mask_''\<rparr>] []] = (sent, err)"
      and ev: "events w' = events w @ map Request sent @
         (case err of Some e \<Rightarrow> [] | None \<Rightarrow> (if hdi (heap w) then
            [Setattr ''image'' (PyStr ''seg''), Setattr ''dimension'' (PyStr ''dim''),
             Setattr ''resolution'' (PyStr ''res''), Setattr ''imageFormat'' (PyStr ''form'')]
          else [Setattr ''image'' (PyStr ''seg'')]))"
      and hp: "heap w' = (case err of Some e \<Rightarrow> heap w | None \<Rightarrow> (if hdi (heap w) then
            (heap w)\<lparr>image_attr := ''seg'', dimension := ''dim'', resolution := ''res'',
                      imageFormat := ''form''\<rparr>
          else (heap w)\<lparr>image_attr := ''seg''\<rparr>))"
      and rs: "res = (case err of None \<Rightarrow> Inr () | Some e \<Rightarrow> Inl e)"
      by (rule mask_image_run[OF Some run])
  let ?tail = "case err of Some e \<Rightarrow> [] | None \<Rightarrow> (if hdi (heap w) then
            [Setattr ''image'' (PyStr ''seg''), Setattr ''dimension'' (PyStr ''dim''),
             Setattr ''resolution'' (PyStr ''res''), Setattr ''imageFormat'' (PyStr ''form'')]
          else [Setattr ''image'' (PyStr ''seg'')])"
  from send_all_nonempty[OF sa] obtain sent' where sent: "sent = r1 # sent'"
    by blast
  with ev have first: "issued w w' = Request r1 # (map Request sent' @ ?tail)"
    by (simp add: issued_append)
  have "\<exists>rest'. map Request sent' @ ?tail = Request (Action ''fedsql.execdirect''
          [PyStr (if hdi (heap w) then fed_sql_str_decoded (heap w) image_tbl
                  else fed_sql_str_encoded (heap w) image_tbl)] []) # rest'"
    if "c (requests_of (events w)) r1 = None"
  proof -
    from send_all_second[OF sa that] sent obtain sent'' where
      "sent' = Action ''fedsql.execdirect''
          [PyStr (if hdi (heap w) then fed_sql_str_decoded (heap w) image_tbl
                  else fed_sql_str_encoded (heap w) image_tbl)] [] # sent''"
      by auto
    then show ?thesis
      by simp
  qed
  then have second: "c (requests_of (events w)) r1 = None \<longrightarrow>
      (\<exists>rest'. map Request sent' @ ?tail = Request (Action ''fedsql.execdirect''
          [PyStr (if hdi (heap w) then fed_sql_str_decoded (heap w) image_tbl
                  else fed_sql_str_encoded (heap w) image_tbl)] []) # rest')"
    by (rule impI)
  show ?thesis
  proof (intro exI conjI)
    show "issued w w' = Request r1 # (map Request sent' @ ?tail)"
      by (fact first)
    show "action_name r1 = ''table.altertable''"
      by (fact a1)
    show "c (requests_of (events w)) r1 = None \<longrightarrow>
      (\<exists>rest'. map Request sent' @ ?tail = Request (Action ''fedsql.execdirect''
          [PyStr (if hdi (heap w) then fed_sql_str_decoded (heap w) image_tbl
                  else fed_sql_str_encoded (heap w) image_tbl)] []) # rest')"
      by (fact second)
  qed
qed

text \<open>
  C9. In both branches the join statement of \<^verbatim>\<open>mask_image\<close> ends in
  \<^verbatim>\<open>on a._id_=b._id_\<close>: the join column is the literal \<^verbatim>\<open>_id_\<close> on both sides, whatever
  the identifier attribute (or any other attribute) of the two \<^verbatim>\<open>ImageTable\<close> arguments;
  of the arguments only the two table names enter the statement. With a session, the
  call submits this statement as its second request as soon as the alter-table request
  has returned, and every SQL request of the call carries it.
\<close>

theorem mask_image_join_on_literal_id:
  assumes run: "mask_image hdi self image_tbl casout input_background decode output_background
             add_columns copy_vars w = (w', res)"
  shows "\<exists>stmt.
           sql_tokens stmt =
             [''create'', ''table'', ''_images_to_mask_'', ''as'', ''select''] @
             (if hdi (heap w)
              then [''a.seg'', '','', ''a.dim'', '','', ''a.res'', '','', ''a.form'', '','']
              else [''a.seg'', '','']) @
             [''b.'', ''*'', ''from''] @ sql_tokens (name (table (heap w))) @
             [''as'', ''a'', ''inner'', ''join''] @ sql_tokens (name (table image_tbl)) @
             [''as'', ''b'', ''on'', ''a._id_'', ''='', ''b._id_''] \<and>
           (\<forall>c. cas_session self = Some c \<longrightarrow>
              (\<exists>r1 rest.
                 issued w w' = Request r1 # rest \<and>
                 action_name r1 = ''table.altertable'' \<and>
                 (c (requests_of (events w)) r1 = None \<longrightarrow>
                    (\<exists>rest'. rest =
                       Request (Action ''fedsql.execdirect'' [PyStr stmt] []) # rest')))) \<and>
           (\<forall>r \<in> set (requests_of (issued w w')).
              action_name r = ''fedsql.execdirect'' \<longrightarrow>
              r = Action ''fedsql.execdirect'' [PyStr stmt] [])"
proof (intro exI[of _ "(if hdi (heap w) then fed_sql_str_decoded (heap w) image_tbl
                  else fed_sql_str_encoded (heap w) image_tbl)"] conjI allI impI ballI)
  show "sql_tokens (if hdi (heap w) then fed_sql_str_decoded (heap w) image_tbl
                  else fed_sql_str_encoded (heap w) image_tbl) =
             [''create'', ''table'', ''_images_to_mask_'', ''as'', ''select''] @
             (if hdi (heap w)
              then [''a.seg'', '','', ''a.dim'', '','', ''a.res'', '','', ''a.form'', '','']
              else [''a.seg'', '','']) @
             [''b.'', ''*'', ''from''] @ sql_tokens (name (table (heap w))) @
             [''as'', ''a'', ''inner'', ''join''] @ sql_tokens (name (table image_tbl)) @
             [''as'', ''b'', ''on'', ''a._id_'', ''='', ''b._id_'']"
    by (rule join_statement_tokens)
next
  fix c
  assume "cas_session self = Some c"
  then show "\<exists>r1 rest.
           issued w w' = Request r1 # rest \<and>
           action_name r1 = ''table.altertable'' \<and>
           (c (requests_of (events w)) r1 = None \<longrightarrow>
              (\<exists>rest'. rest = Request (Action ''fedsql.execdirect''
          [PyStr (if hdi (heap w) then fed_sql_str_decoded (heap w) image_tbl
                  else fed_sql_str_encoded (heap w) image_tbl)] []) # rest'))"
    using run by (rule mask_image_sends_join)
next
  fix r
  assume "r \<in> set (requests_of (issued w w'))" "action_name r = ''fedsql.execdirect''"
  with run show "r = Action ''fedsql.execdirect''
          [PyStr (if hdi (heap w) then fed_sql_str_decoded (heap w) image_tbl
                  else fed_sql_str_encoded (heap w) image_tbl)] []"
    by (rule mask_image_execdirect)
qed

theorem mask_image_join_on_literal_id_witness:
  "(\<exists>r1 stmt rest.
      issued (fresh example_masks) (fst (mask_example always_decoded accepting)) =
        Request r1 # Request (Action ''fedsql.execdirect'' [PyStr stmt] []) # rest \<and>
      Action ''fedsql.execdirect'' [PyStr stmt] []
        \<in> set (requests_of (issued (fresh example_masks)
                   (fst (mask_example always_decoded accepting)))) \<and>
      sql_tokens stmt =
        [''create'', ''table'', ''_images_to_mask_'', ''as'', ''select'',
         ''a.seg'', '','', ''a.dim'', '','', ''a.res'', '','', ''a.form'', '','',
         ''b.'', ''*'', ''from'', ''masks'', ''as'', ''a'', ''inner'', ''join'', ''images'',
         ''as'', ''b'', ''on'', ''a._id_'', ''='', ''b._id_'']) \<and>
   (\<exists>r1 stmt rest.
      issued (fresh example_masks) (fst (mask_example never_decoded accepting)) =
        Request r1 # Request (Action ''fedsql.execdirect'' [PyStr stmt] []) # rest \<and>
      Action ''fedsql.execdirect'' [PyStr stmt] []
        \<in> set (requests_of (issued (fresh example_masks)
                   (fst (mask_example never_decoded accepting)))) \<and>
      sql_tokens stmt =
        [''create'', ''table'', ''_images_to_mask_'', ''as'', ''select'',
         ''a.seg'', '','',
         ''b.'', ''*'', ''from'', ''masks'', ''as'', ''a'', ''inner'', ''join'', ''images'',
         ''as'', ''b'', ''on'', ''a._id_'', ''='', ''b._id_''])"
proof -
  let ?dec = "mask_example always_decoded accepting"
  let ?enc = "mask_example never_decoded accepting"
  have session: "cas_session (example_wrapper accepting) = Some accepting"
    by (simp add: example_wrapper_def)
  have returns: "accepting h r = None" for h r
    by (simp add: accepting_def)
  have names: "sql_tokens (name (table (heap (fresh example_masks)))) = [''masks'']"
      "sql_tokens (name (table example_images)) = [''images'']"
    by (simp_all add: fresh_def example_masks_def example_images_def sql_tokens_def
          is_space_def is_punct_def flush_def)
  have "?dec = (fst ?dec, snd ?dec)"
    by simp
  then have run_dec: "mask_image always_decoded (example_wrapper accepting) example_images
      \<lparr>name = ''masked''\<rparr> 0 False 0 PyNone PyNone (fresh example_masks) = (fst ?dec, snd ?dec)"
    by (simp only: mask_example_def)
  have "?enc = (fst ?enc, snd ?enc)"
    by simp
  then have run_enc: "mask_image never_decoded (example_wrapper accepting) example_images
      \<lparr>name = ''masked''\<rparr> 0 False 0 PyNone PyNone (fresh example_masks) = (fst ?enc, snd ?enc)"
    by (simp only: mask_example_def)
  from mask_image_join_on_literal_id[OF run_dec] session returns
  obtain stmt r1 rest where
    tok: "sql_tokens stmt =
        [''create'', ''table'', ''_images_to_mask_'', ''as'', ''select'',
         ''a.seg'', '','', ''a.dim'', '','', ''a.res'', '','', ''a.form'', '','',
         ''b.'', ''*'', ''from'', ''masks'', ''as'', ''a'', ''inner'', ''join'', ''images'',
         ''as'', ''b'', ''on'', ''a._id_'', ''='', ''b._id_'']"
    and iss: "issued (fresh example_masks) (fst ?dec) =
        Request r1 # Request (Action ''fedsql.execdirect'' [PyStr stmt] []) # rest"
    by (auto simp: names always_decoded_def)
  from iss have "Action ''fedsql.execdirect'' [PyStr stmt] []
        \<in> set (requests_of (issued (fresh example_masks) (fst ?dec)))"
    by simp
  with tok iss have dec: "\<exists>r1 stmt rest.
      issued (fresh example_masks) (fst ?dec) =
        Request r1 # Request (Action ''fedsql.execdirect'' [PyStr stmt] []) # rest \<and>
      Action ''fedsql.execdirect'' [PyStr stmt] []
        \<in> set (requests_of (issued (fresh example_masks) (fst ?dec))) \<and>
      sql_tokens stmt =
        [''create'', ''table'', ''_images_to_mask_'', ''as'', ''select'',
         ''a.seg'', '','', ''a.dim'', '','', ''a.res'', '','', ''a.form'', '','',
         ''b.'', ''*'', ''from'', ''masks'', ''as'', ''a'', ''inner'', ''join'', ''images'',
         ''as'', ''b'', ''on'', ''a._id_'', ''='', ''b._id_'']"
    by blast
  from mask_image_join_on_literal_id[OF run_enc] session returns
  obtain stmt' r1' rest' where
    tok': "sql_tokens stmt' =
        [''create'', ''table'', ''_images_to_mask_'', ''as'', ''select'',
         ''a.seg'', '','',
         ''b.'', ''*'', ''from'', ''masks'', ''as'', ''a'', ''inner'', ''join'', ''images'',
         ''as'', ''b'', ''on'', ''a._id_'', ''='', ''b._id_'']"
    and iss': "issued (fresh example_masks) (fst ?enc) =
        Request r1' # Request (Action ''fedsql.execdirect'' [PyStr stmt'] []) # rest'"
    by (auto simp: names never_decoded_def)
  from iss' have "Action ''fedsql.execdirect'' [PyStr stmt'] []
        \<in> set (requests_of (issued (fresh example_masks) (fst ?enc)))"
    by simp
  with tok' iss' have enc: "\<exists>r1 stmt rest.
      issued (fresh example_masks) (fst ?enc) =
        Request r1 # Request (Action ''fedsql.execdirect'' [PyStr stmt] []) # rest \<and>
      Action ''fedsql.execdirect'' [PyStr stmt] []
        \<in> set (requests_of (issued (fresh example_masks) (fst ?enc))) \<and>
      sql_tokens stmt =
        [''create'', ''table'', ''_images_to_mask_'', ''as'', ''select'',
         ''a.seg'', '','',
         ''b.'', ''*'', ''from'', ''masks'', ''as'', ''a'', ''inner'', ''join'', ''images'',
         ''as'', ''b'', ''on'', ''a._id_'', ''='', ''b._id_'']"
    by blast
  from dec enc show ?thesis
    by (rule conjI)
qed

section \<open>Failure before the clean-up\<close>

text \<open>
  C8. In \<^verbatim>\<open>quantify_sphericity\<close> and in \<^verbatim>\<open>mask_image\<close>, if the session raises on a request
  other than the table drop, the call ends there with exactly that error, and no request
  of the call drops the temporary table (\<^verbatim>\<open>quantify\<close>, respectively
  \<^verbatim>\<open>_images_to_mask_\<close>).
\<close>

theorem failure_before_drop_skips_cleanup:
  "(cas_session self = Some c \<longrightarrow>
    quantify_sphericity self image_table use_spacing input_background
             label_connectivity sphericity w = (w', res) \<longrightarrow>
    issued w w' = evs1 @ Request r # evs2 \<longrightarrow>
    action_name r \<noteq> ''table.dropTable'' \<longrightarrow>
    c (requests_of (events w @ evs1)) r = Some e \<longrightarrow>
      res = Inl e \<and> evs2 = [] \<and>
      (\<forall>x \<in> set (requests_of (issued w w')). \<not> drops_table x ''quantify'')) \<and>
   (cas_session mself = Some mc \<longrightarrow>
    mask_image hdi mself image_tbl casout mask_input_background decode output_background
      add_columns copy_vars mw = (mw', mres) \<longrightarrow>
    issued mw mw' = mevs1 @ Request mr # mevs2 \<longrightarrow>
    action_name mr \<noteq> ''table.dropTable'' \<longrightarrow>
    mc (requests_of (events mw @ mevs1)) mr = Some me \<longrightarrow>
      mres = Inl me \<and> mevs2 = [] \<and> heap mw' = heap mw \<and>
      (\<forall>x \<in> set (requests_of (issued mw mw')). \<not> drops_table x ''_images_to_mask_''))"
proof (intro conjI impI)
  assume Some: "cas_session self = Some c"
    and run: "quantify_sphericity self image_table use_spacing input_background
             label_connectivity sphericity w = (w', res)"
    and iss: "issued w w' = evs1 @ Request r # evs2"
    and act: "action_name r \<noteq> ''table.dropTable''"
    and raised: "c (requests_of (events w @ evs1)) r = Some e"
  obtain r1 xs where
    a1: "action_name r1 = ''biomedimage.quantifybiomedimages''"
    and pre: "prefix (xs @ [r])
       [r1,
        Action ''fedsql.execdirect'' [PyStr (sphericity_sql sphericity)] [],
        Action ''table.dropTable'' [] [(''name'', PyStr ''quantify'')]]"
    and i2: "issued w w' = map Request (xs @ [r])"
    and e2: "evs2 = []"
    and r2: "res = Inl e"
    and h2: "heap w' = heap w"
    by (rule quantify_sphericity_abort[OF Some run iss raised])
  from pre have "\<forall>x \<in> set (xs @ [r]). action_name x \<noteq> ''table.dropTable''"
  proof (rule abort_before_third)
    show "action_name r \<noteq> ''table.dropTable''"
      by (rule act)
    show "action_name r1 \<noteq> ''table.dropTable''"
      using a1 by simp
    show "action_name (Action ''fedsql.execdirect'' [PyStr (sphericity_sql sphericity)] []) \<noteq> ''table.dropTable''"
      by simp
  qed
  moreover have "requests_of (issued w w') = xs @ [r]"
    by (simp only: i2 requests_of_map_Request)
  ultimately have nd: "\<forall>x \<in> set (requests_of (issued w w')). \<not> drops_table x ''quantify''"
    by (simp add: drops_table_def)
  from r2 show "res = Inl e" .
  from e2 show "evs2 = []" .
  from nd show "\<forall>x \<in> set (requests_of (issued w w')). \<not> drops_table x ''quantify''" .
next
  assume Some: "cas_session mself = Some mc"
    and run: "mask_image hdi mself image_tbl casout mask_input_background decode output_background
      add_columns copy_vars mw = (mw', mres)"
    and iss: "issued mw mw' = mevs1 @ Request mr # mevs2"
    and act: "action_name mr \<noteq> ''table.dropTable''"
    and raised: "mc (requests_of (events mw @ mevs1)) mr = Some me"
  obtain r1 r3 xs where
    a1: "action_name r1 = ''table.altertable''"
    and a3: "action_name r3 = ''biomedimage.processbiomedimages''"
    and pre: "prefix (xs @ [mr])
       [r1,
        Action ''fedsql.execdirect''
          [PyStr (if hdi (heap mw) then fed_sql_str_decoded (heap mw) image_tbl
                  else fed_sql_str_encoded (heap mw) image_tbl)] [],
        r3,
        Action ''table.dropTable'' [PyTable \<lparr>name = ''_images_to_mask_''\<rparr>] []]"
    and i2: "issued mw mw' = map Request (xs @ [mr])"
    and e2: "mevs2 = []"
    and r2: "mres = Inl me"
    and h2: "heap mw' = heap mw"
    by (rule mask_image_abort[OF Some run iss raised])
  from pre have "\<forall>x \<in> set (xs @ [mr]). action_name x \<noteq> ''table.dropTable''"
  proof (rule abort_before_fourth)
    show "action_name mr \<noteq> ''table.dropTable''"
      by (rule act)
    show "action_name r1 \<noteq> ''table.dropTable''"
      using a1 by simp
    show "action_name (Action ''fedsql.execdirect''
          [PyStr (if hdi (heap mw) then fed_sql_str_decoded (heap mw) image_tbl
                  else fed_sql_str_encoded (heap mw) image_tbl)] []) \<noteq> ''table.dropTable''"
      by simp
    show "action_name r3 \<noteq> ''table.dropTable''"
      using a3 by simp
  qed
  moreover have "requests_of (issued mw mw') = xs @ [mr]"
    by (simp only: i2 requests_of_map_Request)
  ultimately have nd: "\<forall>x \<in> set (requests_of (issued mw mw')). \<not> drops_table x ''_images_to_mask_''"
    by (simp add: drops_table_def)
  from r2 show "mres = Inl me" .
  from e2 show "mevs2 = []" .
  from h2 show "heap mw' = heap mw" .
  from nd show "\<forall>x \<in> set (requests_of (issued mw mw')). \<not> drops_table x ''_images_to_mask_''" .
qed

theorem failure_before_drop_skips_cleanup_witness:
  "snd (quantify_example (failing_at 0)) = Inl (Raised ''remote failure'') \<and>
   action_name (requests_of (issued (fresh ()) (fst (quantify_example (failing_at 0)))) ! 0)
     \<noteq> ''table.dropTable'' \<and>
   list_all (\<lambda>x. \<not> drops_table x ''quantify'')
     (requests_of (issued (fresh ()) (fst (quantify_example (failing_at 0))))) \<and>
   snd (mask_example always_decoded (failing_at 2)) = Inl (Raised ''remote failure'') \<and>
   action_name (requests_of (issued (fresh example_masks)
      (fst (mask_example always_decoded (failing_at 2)))) ! 2) \<noteq> ''table.dropTable'' \<and>
   heap (fst (mask_example always_decoded (failing_at 2))) = example_masks \<and>
   list_all (\<lambda>x. \<not> drops_table x ''_images_to_mask_'')
     (requests_of (issued (fresh example_masks)
        (fst (mask_example always_decoded (failing_at 2)))))"
proof -
  let ?q = "quantify_example (failing_at 0)"
  let ?qiss = "issued (fresh ()) (fst ?q)"
  let ?qr = "requests_of ?qiss ! 0"
  let ?m = "mask_example always_decoded (failing_at 2)"
  let ?miss = "issued (fresh example_masks) (fst ?m)"
  let ?mr = "requests_of ?miss ! 2"
  note quantify_eval = quantify_example_def quantify_sphericity_def Let_def and_then_def
    call_def invoke_def example_wrapper_def fresh_def issued_def failing_at_def
  have qsession: "cas_session (example_wrapper (failing_at 0)) = Some (failing_at 0)"
    by (simp add: example_wrapper_def)
  have "?q = (fst ?q, snd ?q)"
    by simp
  then have qrun: "quantify_sphericity (example_wrapper (failing_at 0)) example_images True
      (PyInt 0) FACE \<lparr>name = ''sphere''\<rparr> (fresh ()) = (fst ?q, snd ?q)"
    by (simp only: quantify_example_def)
  have qiss: "?qiss = [] @ Request ?qr # drop 1 ?qiss"
    by (simp add: quantify_eval)
  have qact: "action_name ?qr \<noteq> ''table.dropTable''"
    by (simp add: quantify_eval)
  have qraised: "failing_at 0 (requests_of (events (fresh ()) @ [])) ?qr =
      Some (Raised ''remote failure'')"
    by (simp add: fresh_def failing_at_def)
  have msession: "cas_session (example_wrapper (failing_at 2)) = Some (failing_at 2)"
    by (simp add: example_wrapper_def)
  have "?m = (fst ?m, snd ?m)"
    by simp
  then have mrun: "mask_image always_decoded (example_wrapper (failing_at 2)) example_images
      \<lparr>name = ''masked''\<rparr> 0 False 0 PyNone PyNone (fresh example_masks) = (fst ?m, snd ?m)"
    by (simp only: mask_example_def)
  have miss: "?miss = take 2 ?miss @ Request ?mr # drop 3 ?miss"
    by (simp add: mask_eval)
  have mact: "action_name ?mr \<noteq> ''table.dropTable''"
    by (simp add: mask_eval)
  have mraised: "failing_at 2 (requests_of (events (fresh example_masks) @ take 2 ?miss)) ?mr =
      Some (Raised ''remote failure'')"
    by (simp add: mask_eval)
  note inst = failure_before_drop_skips_cleanup[of "example_wrapper (failing_at 0)" "failing_at 0" example_images True "PyInt 0"
      FACE "\<lparr>name = ''sphere''\<rparr>" "fresh ()" "fst ?q" "snd ?q" "[]" ?qr "drop 1 ?qiss"
      "Raised ''remote failure''"
      "example_wrapper (failing_at 2)" "failing_at 2" always_decoded example_images
      "\<lparr>name = ''masked''\<rparr>" 0 False 0 PyNone PyNone "fresh example_masks" "fst ?m" "snd ?m"
      "take 2 ?miss" ?mr "drop 3 ?miss" "Raised ''remote failure''"]
  from inst qsession qrun qiss qact qraised
  have q: "snd ?q = Inl (Raised ''remote failure'')"
      "\<forall>x \<in> set (requests_of ?qiss). \<not> drops_table x ''quantify''"
    by blast+
  from inst msession mrun miss mact mraised
  have m: "snd ?m = Inl (Raised ''remote failure'')" "heap (fst ?m) = heap (fresh example_masks)"
      "\<forall>x \<in> set (requests_of ?miss). \<not> drops_table x ''_images_to_mask_''"
    by blast+
  from q m qact mact show ?thesis
    by (simp add: list_all_iff fresh_def)
qed

end
